theory Spec2Isabelle
  imports Complex_Main
begin

section \<open>JavaScript numbers\<close>

text \<open>
  Every amount in the backend is a JavaScript \<open>number\<close>, an IEEE 754 binary64 value.
  A finite value is modelled by the rational it denotes; \<open>+Infinity\<close>, \<open>-Infinity\<close>
  and \<open>NaN\<close> are separate constructors. Each arithmetic operation computes the exact
  rational result and rounds it to the nearest binary64 value, ties to even (\<open>fl\<close>):
  53 significant bits, exponents from \<open>-1022\<close> (below it the spacing stays
  \<open>2 powi -1074\<close>, the subnormal range) to \<open>1023\<close> (above it the result is infinite).
  The one thing left out is the sign of zero: \<open>-0\<close> is identified with \<open>0\<close>. The
  two differ only under division by zero and sign inspection, and the code modelled
  here divides by the literal \<open>100\<close> only.
\<close>

datatype number = Fin rat | PInf | NInf | NaN

function bitlen :: "int \<Rightarrow> int" where
  \<comment> \<open>the number of binary digits of a positive integer\<close>
  "bitlen n = (if n \<le> 0 then 0 else 1 + bitlen (n div 2))"
  by pat_completeness auto
termination
  by (relation "measure nat") auto

declare bitlen.simps [simp del]

definition ilog2 :: "rat \<Rightarrow> int" where
  \<comment> \<open>for \<open>0 < x\<close>: the integer \<open>e\<close> with \<open>2 powi e \<le> x < 2 powi (e + 1)\<close>\<close>
  "ilog2 x = (if 1 \<le> x then bitlen \<lfloor>x\<rfloor> - 1 else - bitlen (\<lceil>1 / x\<rceil> - 1))"

definition rne :: "rat \<Rightarrow> int" where
  \<comment> \<open>round to the nearest integer, ties to the even one\<close>
  "rne x = (let f = \<lfloor>x\<rfloor>; d = x - of_int f
            in if d < 1 / 2 then f
               else if 1 / 2 < d then f + 1
               else if even f then f else f + 1)"

definition quantum :: "rat \<Rightarrow> rat" where
  \<comment> \<open>the spacing of binary64 values around \<open>x\<close>\<close>
  "quantum x = 2 powi (max (ilog2 \<bar>x\<bar>) (- 1022) - 52)"

definition round53 :: "rat \<Rightarrow> rat" where
  "round53 x = (if x = 0 then 0 else of_int (rne (x / quantum x)) * quantum x)"

definition signed_inf :: "bool \<Rightarrow> number" where
  "signed_inf neg = (if neg then NInf else PInf)"

definition fl :: "rat \<Rightarrow> number" where
  \<comment> \<open>a rounded magnitude of \<open>2 ^ 1024\<close> or more overflows\<close>
  "fl x = (let r = round53 x
           in if r = 0 then Fin 0
              else if 1024 \<le> ilog2 \<bar>r\<bar> then signed_inf (r < 0)
              else Fin r)"

fun fmul :: "number \<Rightarrow> number \<Rightarrow> number" where
  "fmul (Fin a) (Fin b) = fl (a * b)"
| "fmul (Fin a) PInf = (if a = 0 then NaN else signed_inf (a < 0))"
| "fmul (Fin a) NInf = (if a = 0 then NaN else signed_inf (0 < a))"
| "fmul PInf (Fin b) = (if b = 0 then NaN else signed_inf (b < 0))"
| "fmul NInf (Fin b) = (if b = 0 then NaN else signed_inf (0 < b))"
| "fmul PInf PInf = PInf"
| "fmul PInf NInf = NInf"
| "fmul NInf PInf = NInf"
| "fmul NInf NInf = PInf"
| "fmul NaN _ = NaN"
| "fmul _ NaN = NaN"

fun fadd :: "number \<Rightarrow> number \<Rightarrow> number" where
  "fadd (Fin a) (Fin b) = fl (a + b)"
| "fadd (Fin a) PInf = PInf"
| "fadd (Fin a) NInf = NInf"
| "fadd PInf (Fin b) = PInf"
| "fadd NInf (Fin b) = NInf"
| "fadd PInf PInf = PInf"
| "fadd NInf NInf = NInf"
| "fadd PInf NInf = NaN"
| "fadd NInf PInf = NaN"
| "fadd NaN _ = NaN"
| "fadd _ NaN = NaN"

fun fdiv :: "number \<Rightarrow> number \<Rightarrow> number" where
  "fdiv (Fin a) (Fin b) =
     (if b = 0 then (if a = 0 then NaN else signed_inf (a < 0)) else fl (a / b))"
| "fdiv (Fin a) PInf = Fin 0"
| "fdiv (Fin a) NInf = Fin 0"
| "fdiv PInf (Fin b) = signed_inf (b < 0)"
| "fdiv NInf (Fin b) = signed_inf (0 \<le> b)"
| "fdiv PInf PInf = NaN"
| "fdiv PInf NInf = NaN"
| "fdiv NInf PInf = NaN"
| "fdiv NInf NInf = NaN"
| "fdiv NaN _ = NaN"
| "fdiv _ NaN = NaN"

definition literal :: "rat \<Rightarrow> number" where
  \<comment> \<open>a decimal literal of the source text denotes the nearest binary64 value\<close>
  "literal x = fl x"

fun truthy :: "number \<Rightarrow> bool" where
  \<comment> \<open>\<open>ToBoolean\<close>: \<open>0\<close> and \<open>NaN\<close> are falsy\<close>
  "truthy (Fin a) = (a \<noteq> 0)"
| "truthy NaN = False"
| "truthy _ = True"

definition or_else :: "number \<Rightarrow> number \<Rightarrow> number" where
  \<comment> \<open>\<open>a || b\<close> on numbers\<close>
  "or_else a b = (if truthy a then a else b)"

definition newDate :: "number \<Rightarrow> number" where
  \<comment> \<open>the time value of \<open>new Date(t)\<close>: \<open>t\<close> truncated to whole milliseconds, and
      \<open>NaN\<close> (an invalid date) unless \<open>t\<close> is finite and within 8.64e15 of the epoch\<close>
  "newDate x =
     (case x of
        Fin t \<Rightarrow> if \<bar>t\<bar> \<le> 8640000000000000
                 then Fin (of_int (if 0 \<le> t then \<lfloor>t\<rfloor> else \<lceil>t\<rceil>))
                 else NaN
      | _ \<Rightarrow> NaN)"

fun Math_round :: "number \<Rightarrow> number" where
  \<comment> \<open>\<open>Math.round\<close>: the nearest integer, ties towards \<open>+Infinity\<close>\<close>
  "Math_round (Fin a) = Fin (of_int (round a))"
| "Math_round x = x"


section \<open>Object literals used as lookup tables\<close>

text \<open>
  \<open>titles[status]\<close> and \<open>feeRates[method]\<close> index a plain object literal with a
  caller-supplied string. Such a lookup finds the literal's own properties first and
  then the members of \<open>Object.prototype\<close>, which are functions (or, for
  \<open>__proto__\<close>, the prototype object itself): truthy values that are not strings and
  that \<open>ToNumber\<close> maps to \<open>NaN\<close>.
\<close>

datatype 'a js_prop = Undefined | Own 'a | Inherited

definition object_prototype_keys :: "string list" where
  "object_prototype_keys =
     [''constructor'', ''hasOwnProperty'', ''isPrototypeOf'', ''propertyIsEnumerable'',
      ''toLocaleString'', ''toString'', ''valueOf'', ''__proto__'',
      ''__defineGetter__'', ''__defineSetter__'', ''__lookupGetter__'', ''__lookupSetter__'']"

definition js_lookup :: "(string \<times> 'a) list \<Rightarrow> string \<Rightarrow> 'a js_prop" where
  "js_lookup obj k =
     (case map_of obj k of
        Some v \<Rightarrow> Own v
      | None \<Rightarrow> if k \<in> set object_prototype_keys then Inherited else Undefined)"

section \<open>Orders and the order store\<close>

text \<open>
  The Prisma schema is not part of the sources; the records below carry the columns
  that the services and controllers read or write. Times are milliseconds since the
  epoch. A timeline is kept in insertion order, which is the order the queries ask for
  (\<open>orderBy: { createdAt: 'asc' }\<close>). Statuses, titles and notes are string columns.
  The human-readable titles and notes are Chinese text in the source and are given here
  by English glosses.
\<close>

type_synonym time = nat

record timeline_entry =
  entryStatus :: string
  title :: string
  description :: "string option"
  completed :: bool
  completedAt :: time

record order_item =
  productName :: string
  quantity :: number
  totalPrice :: number

record order =
  orderId :: string
  userId :: string
  status :: string
  totalAmount :: number
  estimatedCompletionDate :: time
  orderNotes :: "string option"
  items :: "order_item list"
  timeline :: "timeline_entry list"

record user =
  email :: "string option"
  phone :: "string option"

record cart_item =
  cartProductId :: string

record notification =
  recipient :: string
  sms :: "string option"
  aboutOrder :: string
  oldStatus :: "string option"

datatype provider_call =
    StripeSessionsCreate string "(number \<times> number) list"
  | StripeSessionsRetrieve string
  | StripeRefundsCreate string "number option"
  | PayPalPaymentCreate string
  | PayPalPaymentGet string

text \<open>
  The state outside the process: the tables, the notifications handed to the mail and
  SMS services, and the requests made to payment providers.
\<close>

record world =
  orders :: "string \<rightharpoonup> order"
  users :: "string \<rightharpoonup> user"
  carts :: "string \<rightharpoonup> cart_item list"
  outbox :: "notification list"
  providerCalls :: "provider_call list"

datatype exn =
    RecordNotFound
  | UniqueConstraintFailed
  | ArgumentValidationFailed

subsection \<open>OrderService\<close>

record customization =
  price :: number

record request_item =
  productId :: string
  reqQuantity :: number
  customizations :: "customization list option"

record create_order_data =
  dataUserId :: string
  dataItems :: "request_item list"
  dataTotalAmount :: number
  dataEstimatedCompletionDate :: time
  dataNotes :: "string option"

definition OrderService_createOrder ::
  "world \<Rightarrow> time \<Rightarrow> string \<Rightarrow> create_order_data \<Rightarrow> exn + order \<times> world" where
  \<comment> \<open>\<open>newId\<close> is the identifier the database generates for the row; the \<open>data\<close> of
      \<open>prisma.order.create\<close> has no \<open>items\<close>, so \<open>dataItems\<close> is not read and the row
      comes back, with its \<open>include\<close>d items, without item rows\<close>
  "OrderService_createOrder w now newId d =
     (if orders w newId \<noteq> None then Inl UniqueConstraintFailed
      else
        let order = \<lparr> orderId = newId,
                       userId = dataUserId d,
                       status = ''pending'',
                       totalAmount = dataTotalAmount d,
                       estimatedCompletionDate = dataEstimatedCompletionDate d,
                       orderNotes = dataNotes d,
                       items = [],
                       timeline = [\<lparr> entryStatus = ''pending'',
                                      title = ''order created'',
                                      description = Some ''order created, awaiting payment'',
                                      completed = True,
                                      completedAt = now \<rparr>] \<rparr>
        in Inr (order, w\<lparr>orders := (orders w)(newId \<mapsto> order)\<rparr>))"

definition getOrderById :: "world \<Rightarrow> string \<Rightarrow> order option" where
  "getOrderById w oid = orders w oid"

definition getUserById :: "world \<Rightarrow> string \<Rightarrow> user option" where
  "getUserById w uid = users w uid"

definition orderStatuses :: "string list" where
  \<comment> \<open>the nine values the \<open>updateStatus\<close> validation schema lists\<close>
  "orderStatuses =
     [''pending'', ''confirmed'', ''design_approved'', ''in_production'', ''quality_check'',
      ''packaging'', ''shipped'', ''delivered'', ''cancelled'']"

definition titles :: "(string \<times> string) list" where
  "titles =
     [(''pending'', ''awaiting payment''),
      (''confirmed'', ''confirmed''),
      (''design_approved'', ''design approved''),
      (''in_production'', ''in production''),
      (''quality_check'', ''quality check''),
      (''packaging'', ''packaging''),
      (''shipped'', ''shipped''),
      (''delivered'', ''delivered''),
      (''cancelled'', ''cancelled'')]"

definition getStatusTitle :: "string \<Rightarrow> string option" where
  \<comment> \<open>\<open>titles[status] || 'status update'\<close>; \<open>None\<close> when the lookup yields a member of
      \<open>Object.prototype\<close>, which is truthy and not a string\<close>
  "getStatusTitle st =
     (case js_lookup titles st of
        Own t \<Rightarrow> Some (if t = [] then ''status update'' else t)
      | Undefined \<Rightarrow> Some ''status update''
      | Inherited \<Rightarrow> None)"

definition OrderService_updateOrderStatus ::
  "world \<Rightarrow> time \<Rightarrow> string \<Rightarrow> string \<Rightarrow> string option \<Rightarrow> exn + order \<times> world" where
  \<comment> \<open>one \<open>prisma.order.update\<close>: it throws when no row has the id, and the client
      rejects a timeline title that is not a string before writing anything\<close>
  "OrderService_updateOrderStatus w now oid st note =
     (case orders w oid of
        None \<Rightarrow> Inl RecordNotFound
      | Some order \<Rightarrow>
          (case getStatusTitle st of
             None \<Rightarrow> Inl ArgumentValidationFailed
           | Some t \<Rightarrow>
               let entry = \<lparr> entryStatus = st, title = t, description = note,
                               completed = True, completedAt = now \<rparr>;
                   order' = order\<lparr>status := st, timeline := timeline order @ [entry]\<rparr>
               in Inr (order', w\<lparr>orders := (orders w)(oid \<mapsto> order')\<rparr>)))"


subsection \<open>Order controllers\<close>

text \<open>
  A handler answers with a status code and an \<open>ApiResponse\<close> (its error is kept by its
  code; the messages are display text), or it throws, which \<open>asyncHandler\<close> passes to
  \<open>next\<close>. The handlers are modelled from the point where \<open>authenticateToken\<close> has set
  \<open>req.user\<close>. The \<open>validateRequest('order', ...)\<close> entries of the handler arrays name the
  schema where the request property is expected, so they validate a property the
  request does not have and let every body through; bodies are taken at their
  TypeScript types.
\<close>

datatype 'a api_response = Success 'a | Failure string

datatype 'a http = Json nat "'a api_response" | Next exn

record req_user =
  uid :: string
  level :: string
  role :: "string option"

record create_order_request =
  reqItems :: "request_item list"
  reqNotes :: "string option"

definition nonempty :: "string option \<Rightarrow> bool" where
  \<comment> \<open>truthiness of an optional string\<close>
  "nonempty s = (case s of None \<Rightarrow> False | Some t \<Rightarrow> t \<noteq> [])"

definition getUserCart :: "world \<Rightarrow> string \<Rightarrow> cart_item list" where
  "getUserCart w u = (case carts w u of None \<Rightarrow> [] | Some cs \<Rightarrow> cs)"

definition clearCart :: "world \<Rightarrow> string \<Rightarrow> world" where
  "clearCart w u = w\<lparr>carts := (carts w)(u := None)\<rparr>"

text \<open>
  \<open>addDays\<close> moves a date by calendar days of the host's time zone
  (\<open>setDate(getDate() + days)\<close>), which the sources do not fix; the function is a
  parameter of the handler that uses it.
\<close>

type_synonym calendar = "time \<Rightarrow> nat \<Rightarrow> time"

definition estimatedCompletionDays :: nat where
  "estimatedCompletionDays = 25"

definition sendOrderConfirmation :: "world \<Rightarrow> order \<Rightarrow> string \<Rightarrow> world" where
  "sendOrderConfirmation w order customerEmail =
     w\<lparr>outbox := outbox w @
        [\<lparr> recipient = customerEmail, sms = None, aboutOrder = orderId order,
            oldStatus = None \<rparr>]\<rparr>"

definition sendOrderStatusUpdate ::
  "world \<Rightarrow> order \<Rightarrow> string \<Rightarrow> string option \<Rightarrow> string \<Rightarrow> world" where
  "sendOrderStatusUpdate w order customerEmail customerPhone old =
     w\<lparr>outbox := outbox w @
        [\<lparr> recipient = customerEmail, sms = customerPhone, aboutOrder = orderId order,
            oldStatus = Some old \<rparr>]\<rparr>"

definition customizationsTotal :: "customization list option \<Rightarrow> number" where
  \<comment> \<open>\<open>item.customizations?.reduce((csum, c) => csum + c.price, 0) || 0\<close>\<close>
  "customizationsTotal cs =
     (case cs of
        None \<Rightarrow> Fin 0
      | Some l \<Rightarrow> or_else (foldl (\<lambda>csum c. fadd csum (price c)) (Fin 0) l) (Fin 0))"

definition itemTotal :: "request_item \<Rightarrow> number" where
  "itemTotal item = fmul (reqQuantity item) (customizationsTotal (customizations item))"

definition createOrder ::
  "calendar \<Rightarrow> world \<Rightarrow> time \<Rightarrow> string \<Rightarrow> req_user \<Rightarrow> create_order_request
     \<Rightarrow> order http \<times> world" where
  "createOrder addDays w now newId u body =
     (let cart = getUserCart w (uid u)
      in if cart = [] then (Json 400 (Failure ''EMPTY_CART''), w)
         else if \<exists>item \<in> set (reqItems body).
                   \<not> (\<exists>ci \<in> set cart. cartProductId ci = productId item)
         then (Json 400 (Failure ''INVALID_CART_ITEM''), w)
         else
           let total = foldl (\<lambda>sum item. fadd sum (itemTotal item)) (Fin 0) (reqItems body);
               estimated = addDays now estimatedCompletionDays
           in case OrderService_createOrder w now newId
                     \<lparr> dataUserId = uid u, dataItems = reqItems body, dataTotalAmount = total,
                       dataEstimatedCompletionDate = estimated, dataNotes = reqNotes body \<rparr> of
                Inl e \<Rightarrow> (Next e, w)
              | Inr (order, w1) \<Rightarrow>
                  let w2 = (case getUserById w1 (uid u) of
                              None \<Rightarrow> w1
                            | Some usr \<Rightarrow>
                                if nonempty (email usr)
                                then sendOrderConfirmation w1 order (the (email usr))
                                else w1)
                  in (Json 201 (Success order), clearCart w2 (uid u)))"

definition userRole :: "req_user \<Rightarrow> string" where
  \<comment> \<open>\<open>req.user.role || req.user.level\<close>\<close>
  "userRole u = (if nonempty (role u) then the (role u) else level u)"

definition notifyStatusUpdate :: "world \<Rightarrow> order \<Rightarrow> string \<Rightarrow> world" where
  \<comment> \<open>the notification block shared by the two handlers below; it is handed the order
      as read before the update\<close>
  "notifyStatusUpdate w order old =
     (case getUserById w (userId order) of
        None \<Rightarrow> w
      | Some usr \<Rightarrow>
          if nonempty (email usr)
          then sendOrderStatusUpdate w order (the (email usr)) (phone usr) old
          else w)"

definition updateOrderStatus ::
  "world \<Rightarrow> time \<Rightarrow> req_user \<Rightarrow> string \<Rightarrow> string \<Rightarrow> string option \<Rightarrow> order http \<times> world" where
  "updateOrderStatus w now u oid st note =
     (if userRole u \<notin> set [''admin'', ''superadmin'']
      then (Json 403 (Failure ''INSUFFICIENT_PERMISSIONS''), w)
      else case getOrderById w oid of
             None \<Rightarrow> (Json 404 (Failure ''ORDER_NOT_FOUND''), w)
           | Some order \<Rightarrow>
               (case OrderService_updateOrderStatus w now oid st note of
                  Inl e \<Rightarrow> (Next e, w)
                | Inr (updatedOrder, w1) \<Rightarrow>
                    (Json 200 (Success updatedOrder), notifyStatusUpdate w1 order (status order))))"

definition cancelOrder ::
  "world \<Rightarrow> time \<Rightarrow> req_user \<Rightarrow> string \<Rightarrow> string option \<Rightarrow> order http \<times> world" where
  "cancelOrder w now u oid reason =
     (case getOrderById w oid of
        None \<Rightarrow> (Json 404 (Failure ''ORDER_NOT_FOUND''), w)
      | Some order \<Rightarrow>
          if userId order \<noteq> uid u then (Json 403 (Failure ''ACCESS_DENIED''), w)
          else if status order \<notin> set [''pending'', ''confirmed'']
          then (Json 400 (Failure ''CANNOT_CANCEL_ORDER''), w)
          else
            (case OrderService_updateOrderStatus w now oid ''cancelled''
                    (Some (if nonempty reason then the reason else ''cancelled by the user'')) of
               Inl e \<Rightarrow> (Next e, w)
             | Inr (updatedOrder, w1) \<Rightarrow>
                 (Json 200 (Success updatedOrder), notifyStatusUpdate w1 order (status order))))"


section \<open>Payment gateways\<close>

text \<open>
  The provider SDKs are outside the repository. They are a record of functions from a
  request to what the call returns (\<open>Inr\<close>) or the message of what it throws (\<open>Inl\<close>);
  every call made is also appended to \<open>providerCalls\<close>. \<open>payment_status\<close>,
  \<open>amount_total\<close> and the other session fields are the provider's answer.
\<close>

record config =
  stripeSecretKey :: "string option"
  stripeWebhookSecret :: "string option"
  paypalClientId :: "string option"
  paypalClientSecret :: "string option"
  frontendUrl :: string

record stripe_session =
  sessionId :: string
  sessionUrl :: "string option"
  payment_status :: string
  amount_total :: "number option"
  sessionCurrency :: "string option"
  created :: number

record stripe_event =
  eventType :: string
  eventId :: string
  metadataOrderId :: "string option"

record paypal_sale =
  saleId :: string
  saleState :: string
  saleAmount :: number
  saleCurrency :: "string option"
  saleCreateTime :: "number option"

text \<open>
  A webhook handler reads \<open>req.body\<close>, which is what \<open>express.json()\<close> parsed: the one
  body parser, installed for every route before the router is mounted. The record
  carries the members of the parsed object that the handlers read. Stripe's
  \<open>constructEvent\<close> is therefore handed this parsed object, not the bytes that Stripe
  signed.
\<close>

record paypal_resource =
  custom :: "string option"

record webhook_body =
  event_type :: "string option"
  resource :: "paypal_resource option"
  out_trade_no :: "string option"
  transaction_id :: "string option"
  trade_no :: "string option"

record providers =
  sessionsCreate :: "string \<Rightarrow> (number \<times> number) list \<Rightarrow> string + stripe_session"
  sessionsRetrieve :: "string \<Rightarrow> string + stripe_session"
  constructEvent :: "webhook_body \<Rightarrow> string \<Rightarrow> string \<Rightarrow> string + stripe_event"
  refundsCreate :: "string \<Rightarrow> number option \<Rightarrow> string + string"
  paypalPaymentCreate :: "string \<Rightarrow> string + string \<times> string option"
  paypalPaymentGet :: "string \<Rightarrow> string + paypal_sale option"
  generateTransactionId :: string

record PaymentResult =
  prSuccess :: bool
  transactionId :: string
  amount :: number
  prCurrency :: string
  prMethod :: string
  prStatus :: string
  createdAt :: number

datatype payment_handle =
    CheckoutSession string "string option"
  | Approval string "string option"
  | QrCode string string

datatype webhook_data =
    StripeEvent string "string option" string
  | PayPalEvent "string option" "paypal_resource option"
  | Unverified webhook_body

definition called :: "world \<Rightarrow> provider_call \<Rightarrow> world" where
  "called w c = w\<lparr>providerCalls := providerCalls w @ [c]\<rparr>"

subsection \<open>Stripe\<close>

definition toMinorUnits :: "number \<Rightarrow> number" where
  \<comment> \<open>\<open>Math.round(x * 100)\<close>, as in \<open>createPayment\<close> and \<open>refundPayment\<close>\<close>
  "toMinorUnits x = Math_round (fmul x (Fin 100))"

definition toMajorUnits :: "number option \<Rightarrow> number" where
  \<comment> \<open>\<open>(session.amount_total || 0) / 100\<close>, as in \<open>verifyPayment\<close>\<close>
  "toMajorUnits m = fdiv (or_else (case m of None \<Rightarrow> Fin 0 | Some v \<Rightarrow> v) (Fin 0)) (Fin 100)"

definition StripePaymentGateway_createPayment ::
  "config \<Rightarrow> providers \<Rightarrow> world \<Rightarrow> order \<Rightarrow> string \<Rightarrow> string
     \<Rightarrow> payment_handle api_response \<times> world" where
  "StripePaymentGateway_createPayment cfg p w order returnUrl cancelUrl =
     (if \<not> nonempty (stripeSecretKey cfg) then (Failure ''STRIPE_PAYMENT_ERROR'', w)
      else
        let line_items = map (\<lambda>item. (toMinorUnits (totalPrice item), quantity item)) (items order);
            w1 = called w (StripeSessionsCreate (orderId order) line_items)
        in case sessionsCreate p (orderId order) line_items of
             Inl msg \<Rightarrow> (Failure ''STRIPE_PAYMENT_ERROR'', w1)
           | Inr session \<Rightarrow>
               (Success (CheckoutSession (sessionId session) (sessionUrl session)), w1))"

definition StripePaymentGateway_verifyPayment ::
  "config \<Rightarrow> providers \<Rightarrow> world \<Rightarrow> string \<Rightarrow> PaymentResult api_response \<times> world" where
  "StripePaymentGateway_verifyPayment cfg p w paymentId =
     (if \<not> nonempty (stripeSecretKey cfg) then (Failure ''STRIPE_VERIFICATION_ERROR'', w)
      else
        let w1 = called w (StripeSessionsRetrieve paymentId)
        in case sessionsRetrieve p paymentId of
             Inl msg \<Rightarrow> (Failure ''STRIPE_VERIFICATION_ERROR'', w1)
           | Inr session \<Rightarrow>
               if payment_status session = ''paid''
               then (Success \<lparr> prSuccess = True,
                               transactionId = sessionId session,
                               amount = toMajorUnits (amount_total session),
                               prCurrency = (if nonempty (sessionCurrency session)
                                             then the (sessionCurrency session) else ''usd''),
                               prMethod = ''stripe'',
                               prStatus = ''completed'',
                               createdAt = newDate (fmul (created session) (Fin 1000)) \<rparr>,
                     w1)
               else (Failure ''STRIPE_PAYMENT_NOT_COMPLETED'', w1))"

definition StripePaymentGateway_handleWebhook ::
  "config \<Rightarrow> providers \<Rightarrow> webhook_body \<Rightarrow> string \<Rightarrow> webhook_data api_response" where
  "StripePaymentGateway_handleWebhook cfg p payload signature =
     (if \<not> nonempty (stripeSecretKey cfg) \<or> \<not> nonempty (stripeWebhookSecret cfg)
      then Failure ''STRIPE_WEBHOOK_ERROR''
      else case constructEvent p payload signature (the (stripeWebhookSecret cfg)) of
             Inl msg \<Rightarrow> Failure ''STRIPE_WEBHOOK_ERROR''
           | Inr event \<Rightarrow>
               Success (StripeEvent (eventType event) (metadataOrderId event) (eventId event)))"

definition StripePaymentGateway_refundPayment ::
  "config \<Rightarrow> providers \<Rightarrow> world \<Rightarrow> string \<Rightarrow> number option \<Rightarrow> string api_response \<times> world" where
  \<comment> \<open>\<open>if (amount) refundData.amount = Math.round(amount * 100)\<close>: an amount that is
      absent, \<open>0\<close> or \<open>NaN\<close> asks for a full refund; \<open>refundsCreate\<close> answers with
      the refund's id\<close>
  "StripePaymentGateway_refundPayment cfg p w paymentId amt =
     (if \<not> nonempty (stripeSecretKey cfg) then (Failure ''STRIPE_REFUND_ERROR'', w)
      else
        let minor = (case amt of
                       None \<Rightarrow> None
                     | Some a \<Rightarrow> if truthy a then Some (toMinorUnits a) else None);
            w1 = called w (StripeRefundsCreate paymentId minor)
        in case refundsCreate p paymentId minor of
             Inl msg \<Rightarrow> (Failure ''STRIPE_REFUND_ERROR'', w1)
           | Inr refundId \<Rightarrow> (Success refundId, w1))"

subsection \<open>PayPal\<close>

definition PayPalPaymentGateway_createPayment ::
  "config \<Rightarrow> providers \<Rightarrow> world \<Rightarrow> order \<Rightarrow> string \<Rightarrow> string
     \<Rightarrow> payment_handle api_response \<times> world" where
  \<comment> \<open>\<open>paypalPaymentCreate\<close> is given the order id sent as \<open>custom\<close> and answers with the
      payment id and the \<open>approval_url\<close> link, if there is one\<close>
  "PayPalPaymentGateway_createPayment cfg p w order returnUrl cancelUrl =
     (if \<not> (nonempty (paypalClientId cfg) \<and> nonempty (paypalClientSecret cfg))
      then (Failure ''PAYPAL_PAYMENT_ERROR'', w)
      else
        let w1 = called w (PayPalPaymentCreate (orderId order))
        in case paypalPaymentCreate p (orderId order) of
             Inl msg \<Rightarrow> (Failure ''PAYPAL_PAYMENT_ERROR'', w1)
           | Inr (paymentId, url) \<Rightarrow> (Success (Approval paymentId url), w1))"

definition PayPalPaymentGateway_handleWebhook ::
  "webhook_body \<Rightarrow> string \<Rightarrow> webhook_data api_response" where
  \<comment> \<open>no check of the signature or of anything else\<close>
  "PayPalPaymentGateway_handleWebhook payload signature =
     Success (PayPalEvent (event_type payload) (resource payload))"

definition PayPalPaymentGateway_verifyPayment ::
  "config \<Rightarrow> providers \<Rightarrow> world \<Rightarrow> time \<Rightarrow> string \<Rightarrow> PaymentResult api_response \<times> world" where
  \<comment> \<open>\<open>paypalPaymentGet\<close> answers with the sale of the payment's first transaction, if
      any, together with the transaction's total as \<open>parseFloat\<close> reads it and, when the
      sale has a \<open>create_time\<close>, the time value \<open>new Date\<close> gives that string\<close>
  "PayPalPaymentGateway_verifyPayment cfg p w now paymentId =
     (if \<not> (nonempty (paypalClientId cfg) \<and> nonempty (paypalClientSecret cfg))
      then (Failure ''PAYPAL_VERIFICATION_ERROR'', w)
      else
        let w1 = called w (PayPalPaymentGet paymentId)
        in case paypalPaymentGet p paymentId of
             Inl msg \<Rightarrow> (Failure ''PAYPAL_VERIFICATION_ERROR'', w1)
           | Inr None \<Rightarrow> (Failure ''PAYPAL_PAYMENT_NOT_COMPLETED'', w1)
           | Inr (Some sale) \<Rightarrow>
               if saleState sale = ''completed''
               then (Success \<lparr> prSuccess = True,
                               transactionId = saleId sale,
                               amount = saleAmount sale,
                               prCurrency = (if nonempty (saleCurrency sale)
                                             then the (saleCurrency sale) else ''USD''),
                               prMethod = ''paypal'',
                               prStatus = saleState sale,
                               createdAt = (case saleCreateTime sale of
                                              Some t \<Rightarrow> t
                                            | None \<Rightarrow> Fin (of_nat now)) \<rparr>, w1)
               else (Failure ''PAYPAL_PAYMENT_NOT_COMPLETED'', w1))"

subsection \<open>WeChat Pay and Alipay\<close>

definition WeChatPaymentGateway_createPayment ::
  "providers \<Rightarrow> world \<Rightarrow> order \<Rightarrow> string \<Rightarrow> string \<Rightarrow> payment_handle api_response \<times> world" where
  "WeChatPaymentGateway_createPayment p w order returnUrl cancelUrl =
     (Success (QrCode (generateTransactionId p)
                 (''weixin://wxpay/bizpayurl?pr='' @ generateTransactionId p)), w)"

definition WeChatPaymentGateway_verifyPayment ::
  "world \<Rightarrow> time \<Rightarrow> string \<Rightarrow> PaymentResult api_response \<times> world" where
  "WeChatPaymentGateway_verifyPayment w now paymentId =
     (Success \<lparr> prSuccess = True, transactionId = paymentId, amount = Fin 0,
                 prCurrency = ''CNY'', prMethod = ''wechat'', prStatus = ''completed'',
                 createdAt = Fin (of_nat now) \<rparr>, w)"

definition WeChatPaymentGateway_handleWebhook ::
  "webhook_body \<Rightarrow> string \<Rightarrow> webhook_data api_response" where
  "WeChatPaymentGateway_handleWebhook payload signature = Success (Unverified payload)"

definition AlipayPaymentGateway_createPayment ::
  "providers \<Rightarrow> world \<Rightarrow> order \<Rightarrow> string \<Rightarrow> string \<Rightarrow> payment_handle api_response \<times> world" where
  "AlipayPaymentGateway_createPayment p w order returnUrl cancelUrl =
     (Success (QrCode (generateTransactionId p)
                 (''alipay://alipayclient/?'' @ generateTransactionId p)), w)"

definition AlipayPaymentGateway_verifyPayment ::
  "world \<Rightarrow> time \<Rightarrow> string \<Rightarrow> PaymentResult api_response \<times> world" where
  "AlipayPaymentGateway_verifyPayment w now paymentId =
     (Success \<lparr> prSuccess = True, transactionId = paymentId, amount = Fin 0,
                 prCurrency = ''CNY'', prMethod = ''alipay'', prStatus = ''completed'',
                 createdAt = Fin (of_nat now) \<rparr>, w)"


definition AlipayPaymentGateway_handleWebhook ::
  "webhook_body \<Rightarrow> string \<Rightarrow> webhook_data api_response" where
  "AlipayPaymentGateway_handleWebhook payload signature = Success (Unverified payload)"

subsection \<open>PaymentManager\<close>

datatype gateway =
    StripePaymentGateway
  | PayPalPaymentGateway
  | WeChatPaymentGateway
  | AlipayPaymentGateway

definition gateways :: "(string \<times> gateway) list" where
  \<comment> \<open>the \<open>Map\<close> filled by the constructor, in insertion order\<close>
  "gateways =
     [(''stripe'', StripePaymentGateway),
      (''paypal'', PayPalPaymentGateway),
      (''wechat'', WeChatPaymentGateway),
      (''alipay'', AlipayPaymentGateway)]"

definition getSupportedMethods :: "string list" where
  "getSupportedMethods = map fst gateways"

fun gateway_createPayment ::
  "gateway \<Rightarrow> config \<Rightarrow> providers \<Rightarrow> world \<Rightarrow> order \<Rightarrow> string \<Rightarrow> string
     \<Rightarrow> payment_handle api_response \<times> world" where
  "gateway_createPayment StripePaymentGateway cfg p w order r c =
     StripePaymentGateway_createPayment cfg p w order r c"
| "gateway_createPayment PayPalPaymentGateway cfg p w order r c =
     PayPalPaymentGateway_createPayment cfg p w order r c"
| "gateway_createPayment WeChatPaymentGateway cfg p w order r c =
     WeChatPaymentGateway_createPayment p w order r c"
| "gateway_createPayment AlipayPaymentGateway cfg p w order r c =
     AlipayPaymentGateway_createPayment p w order r c"

fun gateway_verifyPayment ::
  "gateway \<Rightarrow> config \<Rightarrow> providers \<Rightarrow> world \<Rightarrow> time \<Rightarrow> string
     \<Rightarrow> PaymentResult api_response \<times> world" where
  "gateway_verifyPayment StripePaymentGateway cfg p w now paymentId =
     StripePaymentGateway_verifyPayment cfg p w paymentId"
| "gateway_verifyPayment PayPalPaymentGateway cfg p w now paymentId =
     PayPalPaymentGateway_verifyPayment cfg p w now paymentId"
| "gateway_verifyPayment WeChatPaymentGateway cfg p w now paymentId =
     WeChatPaymentGateway_verifyPayment w now paymentId"
| "gateway_verifyPayment AlipayPaymentGateway cfg p w now paymentId =
     AlipayPaymentGateway_verifyPayment w now paymentId"

fun gateway_handleWebhook ::
  "gateway \<Rightarrow> config \<Rightarrow> providers \<Rightarrow> webhook_body \<Rightarrow> string \<Rightarrow> webhook_data api_response" where
  "gateway_handleWebhook StripePaymentGateway cfg p payload signature =
     StripePaymentGateway_handleWebhook cfg p payload signature"
| "gateway_handleWebhook PayPalPaymentGateway cfg p payload signature =
     PayPalPaymentGateway_handleWebhook payload signature"
| "gateway_handleWebhook WeChatPaymentGateway cfg p payload signature =
     WeChatPaymentGateway_handleWebhook payload signature"
| "gateway_handleWebhook AlipayPaymentGateway cfg p payload signature =
     AlipayPaymentGateway_handleWebhook payload signature"

definition PaymentManager_createPayment ::
  "config \<Rightarrow> providers \<Rightarrow> world \<Rightarrow> string \<Rightarrow> order \<Rightarrow> string \<Rightarrow> string
     \<Rightarrow> payment_handle api_response \<times> world" where
  "PaymentManager_createPayment cfg p w method order returnUrl cancelUrl =
     (case map_of gateways method of
        None \<Rightarrow> (Failure ''UNSUPPORTED_PAYMENT_METHOD'', w)
      | Some g \<Rightarrow> gateway_createPayment g cfg p w order returnUrl cancelUrl)"

definition PaymentManager_verifyPayment ::
  "config \<Rightarrow> providers \<Rightarrow> world \<Rightarrow> time \<Rightarrow> string \<Rightarrow> string
     \<Rightarrow> PaymentResult api_response \<times> world" where
  "PaymentManager_verifyPayment cfg p w now method paymentId =
     (case map_of gateways method of
        None \<Rightarrow> (Failure ''UNSUPPORTED_PAYMENT_METHOD'', w)
      | Some g \<Rightarrow> gateway_verifyPayment g cfg p w now paymentId)"

definition PaymentManager_handleWebhook ::
  "config \<Rightarrow> providers \<Rightarrow> string \<Rightarrow> webhook_body \<Rightarrow> string \<Rightarrow> webhook_data api_response" where
  "PaymentManager_handleWebhook cfg p method payload signature =
     (case map_of gateways method of
        None \<Rightarrow> Failure ''UNSUPPORTED_PAYMENT_METHOD''
      | Some g \<Rightarrow> gateway_handleWebhook g cfg p payload signature)"

definition feeRates :: "(string \<times> number) list" where
  "feeRates =
     [(''stripe'', literal (29 / 1000)),
      (''paypal'', literal (34 / 1000)),
      (''wechat'', literal (6 / 1000)),
      (''alipay'', literal (6 / 1000))]"

definition calculateFees :: "number \<Rightarrow> string \<Rightarrow> number" where
  \<comment> \<open>\<open>const rate = feeRates[method] || 0.03; return amount * rate\<close>. A rate that is a
      member of \<open>Object.prototype\<close> is kept by \<open>||\<close> and is \<open>NaN\<close> as a factor.\<close>
  "calculateFees amt method =
     (case js_lookup feeRates method of
        Own rate \<Rightarrow> fmul amt (or_else rate (literal (3 / 100)))
      | Undefined \<Rightarrow> fmul amt (literal (3 / 100))
      | Inherited \<Rightarrow> fmul amt NaN)"

subsection \<open>Payment controllers\<close>

definition createPayment ::
  "config \<Rightarrow> providers \<Rightarrow> world \<Rightarrow> req_user \<Rightarrow> string \<Rightarrow> string \<Rightarrow> string option \<Rightarrow> string option
     \<Rightarrow> payment_handle http \<times> world" where
  "createPayment cfg p w u oid method returnUrl cancelUrl =
     (case getOrderById w oid of
        None \<Rightarrow> (Json 404 (Failure ''ORDER_NOT_FOUND''), w)
      | Some order \<Rightarrow>
          if userId order \<noteq> uid u \<and> level u \<notin> set [''admin'', ''superadmin'']
          then (Json 403 (Failure ''ACCESS_DENIED''), w)
          else if status order \<noteq> ''pending''
          then (Json 400 (Failure ''INVALID_ORDER_STATUS''), w)
          else
            let gateway = (if method \<in> set getSupportedMethods then method else ''stripe'')
            in (case PaymentManager_createPayment cfg p w gateway order
                       (if nonempty returnUrl then the returnUrl
                        else frontendUrl cfg @ ''/orders/'' @ oid @ ''/payment/success'')
                       (if nonempty cancelUrl then the cancelUrl
                        else frontendUrl cfg @ ''/orders/'' @ oid @ ''/payment/cancel'') of
                  (Failure code, w1) \<Rightarrow> (Json 500 (Failure code), w1)
                | (Success d, w1) \<Rightarrow> (Json 200 (Success d), w1)))"

definition verifyPayment ::
  "config \<Rightarrow> providers \<Rightarrow> world \<Rightarrow> time \<Rightarrow> req_user \<Rightarrow> string \<Rightarrow> string option \<Rightarrow> string
     \<Rightarrow> PaymentResult http \<times> world" where
  "verifyPayment cfg p w now u paymentId method oid =
     (if \<not> nonempty method then (Json 400 (Failure ''NO_PAYMENT_METHOD''), w)
      else case getOrderById w oid of
             None \<Rightarrow> (Json 404 (Failure ''ORDER_NOT_FOUND''), w)
           | Some order \<Rightarrow>
               if userId order \<noteq> uid u \<and> level u \<notin> set [''admin'', ''superadmin'']
               then (Json 403 (Failure ''ACCESS_DENIED''), w)
               else
                 (case PaymentManager_verifyPayment cfg p w now (the method) paymentId of
                    (Failure code, w1) \<Rightarrow> (Json 200 (Failure code), w1)
                  | (Success d, w1) \<Rightarrow>
                      if prSuccess d \<and> prStatus d = ''completed''
                      then (case OrderService_updateOrderStatus w1 now oid ''confirmed''
                                   (Some ''payment verified'') of
                              Inl e \<Rightarrow> (Next e, w1)
                            | Inr (updatedOrder, w2) \<Rightarrow> (Json 200 (Success d), w2))
                      else (Json 200 (Success d), w1)))"

definition confirmOrder ::
  "world \<Rightarrow> time \<Rightarrow> string \<Rightarrow> string \<Rightarrow> webhook_data api_response \<Rightarrow> webhook_data http \<times> world" where
  \<comment> \<open>the tail the four webhook handlers share: \<open>updateOrderStatus(orderId, 'confirmed',
      note)\<close> inside the handler's \<open>try\<close>, whose \<open>catch\<close> answers 400, then
      \<open>res.json(result)\<close>\<close>
  "confirmOrder w now oid nt result =
     (case OrderService_updateOrderStatus w now oid ''confirmed'' (Some nt) of
        Inl e \<Rightarrow> (Json 400 (Failure ''WEBHOOK_ERROR''), w)
      | Inr (updatedOrder, w1) \<Rightarrow> (Json 200 result, w1))"

definition handleStripeWebhook ::
  "config \<Rightarrow> providers \<Rightarrow> world \<Rightarrow> time \<Rightarrow> webhook_body \<Rightarrow> string
     \<Rightarrow> webhook_data http \<times> world" where
  "handleStripeWebhook cfg p w now body signature =
     (let result = PaymentManager_handleWebhook cfg p ''stripe'' body signature
      in case result of
           Success (StripeEvent type oid eid) \<Rightarrow>
             if type = ''checkout.session.completed'' \<and> nonempty oid
             then confirmOrder w now (the oid) ''Stripe payment completed'' result
             else (Json 200 result, w)
         | _ \<Rightarrow> (Json 200 result, w))"

definition handlePayPalWebhook ::
  "config \<Rightarrow> providers \<Rightarrow> world \<Rightarrow> time \<Rightarrow> webhook_body \<Rightarrow> string
     \<Rightarrow> webhook_data http \<times> world" where
  \<comment> \<open>reading \<open>resource.custom\<close> of a missing \<open>resource\<close> throws inside the \<open>try\<close>\<close>
  "handlePayPalWebhook cfg p w now body signature =
     (let result = PaymentManager_handleWebhook cfg p ''paypal'' body signature
      in case result of
           Success (PayPalEvent et res) \<Rightarrow>
             if et = Some ''PAYMENT.SALE.COMPLETED''
             then (case res of
                     None \<Rightarrow> (Json 400 (Failure ''WEBHOOK_ERROR''), w)
                   | Some r \<Rightarrow>
                       if nonempty (custom r)
                       then confirmOrder w now (the (custom r)) ''PayPal payment completed'' result
                       else (Json 200 result, w))
             else (Json 200 result, w)
         | _ \<Rightarrow> (Json 200 result, w))"

definition handleWeChatWebhook ::
  "config \<Rightarrow> providers \<Rightarrow> world \<Rightarrow> time \<Rightarrow> webhook_body \<Rightarrow> webhook_data http \<times> world" where
  "handleWeChatWebhook cfg p w now body =
     (let result = PaymentManager_handleWebhook cfg p ''wechat'' body []
      in case result of
           Success (Unverified payload) \<Rightarrow>
             if nonempty (out_trade_no payload)
             then confirmOrder w now (the (out_trade_no payload)) ''WeChat payment completed''
                    result
             else (Json 200 result, w)
         | _ \<Rightarrow> (Json 200 result, w))"

definition handleAlipayWebhook ::
  "config \<Rightarrow> providers \<Rightarrow> world \<Rightarrow> time \<Rightarrow> webhook_body \<Rightarrow> webhook_data http \<times> world" where
  "handleAlipayWebhook cfg p w now body =
     (let result = PaymentManager_handleWebhook cfg p ''alipay'' body []
      in case result of
           Success (Unverified payload) \<Rightarrow>
             if nonempty (out_trade_no payload)
             then confirmOrder w now (the (out_trade_no payload)) ''Alipay payment completed''
                    result
             else (Json 200 result, w)
         | _ \<Rightarrow> (Json 200 result, w))"


section \<open>Properties of an order and sample states\<close>

definition status_matches_timeline :: "order \<Rightarrow> bool" where
  "status_matches_timeline order =
     (timeline order \<noteq> [] \<and> status order = entryStatus (last (timeline order)))"

definition entries_with :: "string \<Rightarrow> order \<Rightarrow> nat" where
  \<comment> \<open>how many timeline entries record a transition to the given status\<close>
  "entries_with st order = length (filter (\<lambda>e. entryStatus e = st) (timeline order))"

definition entryFor :: "string \<Rightarrow> string \<Rightarrow> string option \<Rightarrow> time \<Rightarrow> timeline_entry" where
  "entryFor st t note now =
     \<lparr> entryStatus = st, title = t, description = note, completed = True, completedAt = now \<rparr>"

definition moved :: "order \<Rightarrow> string \<Rightarrow> string \<Rightarrow> string option \<Rightarrow> time \<Rightarrow> order" where
  \<comment> \<open>the order with its status replaced and one entry appended to its timeline\<close>
  "moved order st t note now =
     order\<lparr>status := st, timeline := timeline order @ [entryFor st t note now]\<rparr>"

definition storedAt :: "world \<Rightarrow> string \<Rightarrow> order \<Rightarrow> world" where
  "storedAt w oid order = w\<lparr>orders := (orders w)(oid \<mapsto> order)\<rparr>"

definition freshOrder :: "string \<Rightarrow> create_order_data \<Rightarrow> time \<Rightarrow> order" where
  \<comment> \<open>the row that \<open>OrderService.createOrder\<close> writes\<close>
  "freshOrder newId d now =
     \<lparr> orderId = newId, userId = dataUserId d, status = ''pending'',
       totalAmount = dataTotalAmount d,
       estimatedCompletionDate = dataEstimatedCompletionDate d,
       orderNotes = dataNotes d, items = [],
       timeline = [entryFor ''pending'' ''order created''
                     (Some ''order created, awaiting payment'') now] \<rparr>"

definition sampleData :: create_order_data where
  "sampleData =
     \<lparr> dataUserId = ''alice'', dataItems = [], dataTotalAmount = Fin 10,
       dataEstimatedCompletionDate = 5000, dataNotes = None \<rparr>"

definition constantPart :: "order \<Rightarrow> order" where
  \<comment> \<open>every column of the order other than \<open>status\<close> and the timeline\<close>
  "constantPart order = order\<lparr>status := [], timeline := []\<rparr>"

record status_update =
  atTime :: time
  target :: string
  newStatus :: string
  withNote :: "string option"

fun statusUpdates :: "world \<Rightarrow> status_update list \<Rightarrow> world" where
  \<comment> \<open>a run of calls to \<open>OrderService.updateOrderStatus\<close>; a call that throws writes
      nothing\<close>
  "statusUpdates w [] = w"
| "statusUpdates w (c # cs) =
     (case OrderService_updateOrderStatus w (atTime c) (target c) (newStatus c) (withNote c) of
        Inl e \<Rightarrow> statusUpdates w cs
      | Inr (order, w') \<Rightarrow> statusUpdates w' cs)"

definition cancelNote :: "string option \<Rightarrow> string" where
  \<comment> \<open>the note \<open>cancelOrder\<close> records: \<open>reason || 'cancelled by the user'\<close>\<close>
  "cancelNote reason = (if nonempty reason then the reason else ''cancelled by the user'')"

definition itemTotalsSum :: "order \<Rightarrow> number" where
  \<comment> \<open>the sum of the totals of the order's item rows, the quantity that C8 compares
      \<open>totalAmount\<close> with; added up from 0 in row order, the way \<open>getUserCart\<close> adds up
      a cart: \<open>reduce((sum, item) => sum + item.totalPrice, 0)\<close>\<close>
  "itemTotalsSum order = foldl (\<lambda>sum item. fadd sum (totalPrice item)) (Fin 0) (items order)"

definition utcDays :: calendar where
  \<comment> \<open>\<open>addDays\<close> on a host whose zone has no daylight saving\<close>
  "utcDays t days = t + days * 86400000"

definition sampleBody :: create_order_request where
  \<comment> \<open>two copies of product \<open>p1\<close> with customizations priced 5 and 2.5, and one
      \<open>p2\<close> with a customization priced 4\<close>
  "sampleBody =
     \<lparr> reqItems = [\<lparr> productId = ''p1'', reqQuantity = Fin 2,
                       customizations = Some [\<lparr> price = Fin 5 \<rparr>, \<lparr> price = Fin (5 / 2) \<rparr>] \<rparr>,
                    \<lparr> productId = ''p2'', reqQuantity = Fin 1,
                       customizations = Some [\<lparr> price = Fin 4 \<rparr>] \<rparr>],
       reqNotes = None \<rparr>"

definition sampleOrder :: order where
  \<comment> \<open>what \<open>createOrder\<close> makes of \<open>sampleBody\<close> at time 3000 under the id \<open>ord2\<close>\<close>
  "sampleOrder =
     freshOrder ''ord2''
       \<lparr> dataUserId = ''alice'', dataItems = reqItems sampleBody, dataTotalAmount = Fin 19,
         dataEstimatedCompletionDate = 2160003000, dataNotes = None \<rparr> 3000"

definition alice :: req_user where
  "alice = \<lparr> uid = ''alice'', level = ''user'', role = None \<rparr>"

definition bob :: req_user where
  "bob = \<lparr> uid = ''bob'', level = ''user'', role = None \<rparr>"

definition admin :: req_user where
  "admin = \<lparr> uid = ''root'', level = ''admin'', role = None \<rparr>"

definition orderIn :: "string \<Rightarrow> order" where
  \<comment> \<open>an order of \<open>alice\<close> that was created at time 1000 and, unless it is still
      pending, moved to the given status at time 2000\<close>
  "orderIn st =
     \<lparr> orderId = ''ord1'', userId = ''alice'', status = st, totalAmount = Fin 299,
       estimatedCompletionDate = 2160001000, orderNotes = None,
       items = [\<lparr> productName = ''figurine'', quantity = Fin 1, totalPrice = Fin 299 \<rparr>],
       timeline =
         \<lparr> entryStatus = ''pending'', title = ''order created'',
           description = Some ''order created, awaiting payment'',
           completed = True, completedAt = 1000 \<rparr> #
         (if st = ''pending'' then []
          else [\<lparr> entryStatus = st, title = the (getStatusTitle st), description = None,
                   completed = True, completedAt = 2000 \<rparr>]) \<rparr>"

definition worldWith :: "string \<Rightarrow> world" where
  \<comment> \<open>a store holding \<open>orderIn st\<close> and nothing else\<close>
  "worldWith st =
     \<lparr> orders = [''ord1'' \<mapsto> orderIn st],
       users = [''alice'' \<mapsto> \<lparr> email = Some ''alice@example.com'', phone = None \<rparr>],
       carts = [''alice'' \<mapsto> [\<lparr> cartProductId = ''p1'' \<rparr>, \<lparr> cartProductId = ''p2'' \<rparr>]],
       outbox = [],
       providerCalls = [] \<rparr>"


definition sampleConfig :: config where
  "sampleConfig =
     \<lparr> stripeSecretKey = Some ''sk_test'', stripeWebhookSecret = Some ''whsec_test'',
       paypalClientId = None, paypalClientSecret = None,
       frontendUrl = ''https://shop.example'' \<rparr>"

definition emptyBody :: webhook_body where
  "emptyBody =
     \<lparr> event_type = None, resource = None, out_trade_no = None, transaction_id = None,
       trade_no = None \<rparr>"

definition wechatNotification :: webhook_body where
  \<comment> \<open>a payment notification for the sample order, as posted to the WeChat endpoint\<close>
  "wechatNotification =
     emptyBody\<lparr>out_trade_no := Some ''ord1'', transaction_id := Some ''wx_1''\<rparr>"

definition paypalNotification :: webhook_body where
  "paypalNotification =
     emptyBody\<lparr>event_type := Some ''PAYMENT.SALE.COMPLETED'',
                resource := Some \<lparr> custom = Some ''ord1'' \<rparr>\<rparr>"

definition openSession :: stripe_session where
  \<comment> \<open>a checkout session the buyer has not paid yet\<close>
  "openSession =
     \<lparr> sessionId = ''cs_1'', sessionUrl = Some ''https://checkout.stripe.example/cs_1'',
       payment_status = ''unpaid'', amount_total = Some (Fin 29900),
       sessionCurrency = Some ''usd'', created = Fin 1700000000 \<rparr>"

definition sampleProviders :: providers where
  \<comment> \<open>providers whose sessions are still unpaid; \<open>constructEvent\<close> finds no matching
      signature for a body that is not the signed bytes\<close>
  "sampleProviders =
     \<lparr> sessionsCreate = (\<lambda>oid line_items. Inr openSession),
       sessionsRetrieve = (\<lambda>sid. Inr openSession),
       constructEvent = (\<lambda>payload signature secret.
          Inl ''No signatures found matching the expected signature for payload''),
       refundsCreate = (\<lambda>pid amt. Inr ''re_1''),
       paypalPaymentCreate = (\<lambda>oid. Inl ''not configured''),
       paypalPaymentGet = (\<lambda>pid. Inr None),
       generateTransactionId = ''TXN1'' \<rparr>"

definition confirmedAt :: "order \<Rightarrow> string \<Rightarrow> time \<Rightarrow> order" where
  \<comment> \<open>the order as a webhook handler's update leaves it\<close>
  "confirmedAt order nt now = moved order ''confirmed'' ''confirmed'' (Some nt) now"

definition completedResult :: "string \<Rightarrow> string \<Rightarrow> time \<Rightarrow> PaymentResult" where
  \<comment> \<open>the result the two simulated adapters build\<close>
  "completedResult method paymentId now =
     \<lparr> prSuccess = True, transactionId = paymentId, amount = Fin 0, prCurrency = ''CNY'',
       prMethod = method, prStatus = ''completed'', createdAt = Fin (of_nat now) \<rparr>"

section \<open>Rounding to binary64\<close>

lemma bitlen_nonneg: "0 \<le> bitlen n"
proof (induction n rule: bitlen.induct)
  case (1 n)
  then show ?case by (subst bitlen.simps) auto
qed

lemma bitlen_pos: "0 < n \<Longrightarrow> 1 \<le> bitlen n"
  using bitlen_nonneg[of "n div 2"] by (subst bitlen.simps) simp

lemma bitlen_range:
  "0 < n \<Longrightarrow> 2 ^ nat (bitlen n - 1) \<le> n \<and> n < 2 ^ nat (bitlen n)"
proof (induction n rule: bitlen.induct)
  case (1 n)
  show ?case
  proof (cases "n = 1")
    case True
    then show ?thesis by (simp add: bitlen.simps[of 1] bitlen.simps[of 0])
  next
    case False
    with "1.prems" have n2: "0 < n div 2" by simp
    from "1.prems" have "\<not> n \<le> 0" by simp
    from "1.IH"[OF this n2]
    have lo: "2 ^ nat (bitlen (n div 2) - 1) \<le> n div 2"
      and hi: "n div 2 < 2 ^ nat (bitlen (n div 2))"
      by simp_all
    have b: "bitlen n = 1 + bitlen (n div 2)"
      using "1.prems" by (subst bitlen.simps) simp
    have p: "1 \<le> bitlen (n div 2)" using n2 by (rule bitlen_pos)
    have e1: "nat (bitlen n - 1) = Suc (nat (bitlen (n div 2) - 1))"
      using b p by simp
    have e2: "nat (bitlen n) = Suc (nat (bitlen (n div 2)))"
      using b p by simp
    from lo have "2 * 2 ^ nat (bitlen (n div 2) - 1) \<le> 2 * (n div 2)" by simp
    also have "\<dots> \<le> n" by simp
    finally have A: "2 ^ nat (bitlen n - 1) \<le> n" by (simp add: e1)
    from hi have "n div 2 + 1 \<le> 2 ^ nat (bitlen (n div 2))" by simp
    then have "2 * (n div 2) + 2 \<le> 2 * 2 ^ nat (bitlen (n div 2))" by simp
    moreover have "n < 2 * (n div 2) + 2" by presburger
    ultimately have B: "n < 2 ^ nat (bitlen n)" by (simp add: e2)
    from A B show ?thesis by simp
  qed
qed

lemma ilog2_bounds:
  assumes "0 < x"
  shows "2 powi ilog2 x \<le> x \<and> x < 2 powi (ilog2 x + 1)"
proof (cases "1 \<le> x")
  case True
  define n where "n = \<lfloor>x\<rfloor>"
  have n: "0 < n" using True by (simp add: n_def)
  have e: "ilog2 x = bitlen n - 1" using True by (simp add: ilog2_def n_def)
  have p: "1 \<le> bitlen n" using n by (rule bitlen_pos)
  from bitlen_range[OF n]
  have lo: "2 ^ nat (bitlen n - 1) \<le> n" and hi: "n < 2 ^ nat (bitlen n)" by simp_all
  have "(2::rat) powi (bitlen n - 1) = 2 ^ nat (bitlen n - 1)"
    using p by (simp add: power_int_def)
  also have "\<dots> \<le> of_int n" using lo by (simp only: numeral_power_le_of_int_cancel_iff)
  also have "\<dots> \<le> x" by (simp add: n_def)
  finally have A: "2 powi ilog2 x \<le> x" by (simp add: e)
  from hi have "n + 1 \<le> 2 ^ nat (bitlen n)" by simp
  then have "(of_int (n + 1) :: rat) \<le> 2 ^ nat (bitlen n)"
    by (simp only: of_int_le_numeral_power_cancel_iff)
  moreover have "x < of_int (n + 1)" unfolding n_def by linarith
  ultimately have "x < 2 ^ nat (bitlen n)" by (rule less_le_trans[rotated])
  moreover have "(2::rat) powi (bitlen n - 1 + 1) = 2 ^ nat (bitlen n)"
    using p by (simp add: power_int_def)
  ultimately have B: "x < 2 powi (ilog2 x + 1)" by (simp add: e)
  from A B show ?thesis by simp
next
  case False
  define y where "y = 1 / x"
  define c where "c = \<lceil>y\<rceil>"
  have y1: "1 < y" using False assms by (simp add: y_def)
  have c2: "2 \<le> c" using y1 unfolding c_def by linarith
  have n: "0 < c - 1" using c2 by simp
  define k where "k = bitlen (c - 1)"
  have e: "ilog2 x = - k" using False by (simp add: ilog2_def k_def c_def y_def)
  have p: "1 \<le> k" unfolding k_def using n by (rule bitlen_pos)
  from bitlen_range[OF n]
  have lo: "2 ^ nat (k - 1) \<le> c - 1" and hi: "c - 1 < 2 ^ nat k" by (simp_all add: k_def)
  have xy: "x = 1 / y" using assms by (simp add: y_def)
  have ypos: "0 < y" using y1 by simp
  from hi have "c \<le> 2 ^ nat k" by simp
  then have "(of_int c :: rat) \<le> 2 ^ nat k" by simp
  moreover have "y \<le> of_int c" unfolding c_def by linarith
  ultimately have yk: "y \<le> 2 ^ nat k" by (rule order_trans[rotated])
  from lo have "(2 ^ nat (k - 1) :: rat) \<le> of_int (c - 1)"
    by (simp only: numeral_power_le_of_int_cancel_iff)
  moreover have "of_int (c - 1) < y" unfolding c_def by linarith
  ultimately have ky: "2 ^ nat (k - 1) < y" by (rule le_less_trans)
  have "2 powi (- k) = 1 / (2::rat) ^ nat k"
    using p by (simp add: power_int_def field_simps)
  also have "\<dots> \<le> 1 / y" using yk ypos by (simp add: frac_le)
  finally have A: "2 powi ilog2 x \<le> x" by (simp add: e xy[symmetric])
  have "x = 1 / y" by (rule xy)
  also have "\<dots> < 1 / 2 ^ nat (k - 1)" using ky by (simp add: frac_less2)
  also have "\<dots> = 2 powi (- k + 1)"
  proof (cases "k = 1")
    case True
    then show ?thesis by simp
  next
    case False
    with p have "- k + 1 < 0" by simp
    moreover have "nat (- (- k + 1)) = nat (k - 1)" by simp
    ultimately show ?thesis by (simp add: power_int_def field_simps)
  qed
  finally have B: "x < 2 powi (ilog2 x + 1)" by (simp add: e)
  from A B show ?thesis by simp
qed

lemma rne_error: "\<bar>of_int (rne y) - y\<bar> \<le> 1 / 2"
proof -
  have "of_int \<lfloor>y\<rfloor> \<le> y" "y < of_int \<lfloor>y\<rfloor> + 1" by linarith+
  then show ?thesis
    by (auto simp: rne_def Let_def abs_le_iff)
qed

text \<open>In the normal range the relative rounding error is at most \<open>2 powi -53\<close>.\<close>

lemma round53_error:
  assumes "2 powi (- 1022) \<le> \<bar>x\<bar>"
  shows "\<bar>round53 x - x\<bar> \<le> \<bar>x\<bar> / 2 ^ 53"
proof -
  have "(0::rat) < 2 powi (- 1022)" by simp
  with assms have pos: "0 < \<bar>x\<bar>" by linarith
  then have x0: "x \<noteq> 0" by simp
  define e where "e = ilog2 \<bar>x\<bar>"
  from ilog2_bounds[OF pos]
  have lo: "2 powi e \<le> \<bar>x\<bar>" and hi: "\<bar>x\<bar> < 2 powi (e + 1)" by (simp_all add: e_def)
  have e_min: "- 1022 \<le> e"
  proof (rule ccontr)
    assume "\<not> - 1022 \<le> e"
    then have "e + 1 \<le> - 1022" by simp
    then have "(2::rat) powi (e + 1) \<le> 2 powi (- 1022)" by (intro power_int_increasing) simp_all
    with hi assms show False by linarith
  qed
  define q :: rat where "q = 2 powi (e - 52)"
  have q: "quantum x = q" using e_min by (simp add: quantum_def q_def e_def max_def)
  have qpos: "0 < q" by (simp add: q_def)
  have r: "round53 x = of_int (rne (x / q)) * q" using x0 by (simp add: round53_def q)
  have "round53 x - x = (of_int (rne (x / q)) - x / q) * q"
    using qpos by (simp add: r field_simps)
  then have "\<bar>round53 x - x\<bar> = \<bar>of_int (rne (x / q)) - x / q\<bar> * q"
    using qpos by (simp add: abs_mult)
  also have "\<dots> \<le> 1 / 2 * q"
    using rne_error[of "x / q"] qpos by (intro mult_right_mono) simp_all
  also have "\<dots> = 2 powi e / 2 ^ 53"
  proof -
    have "(2::rat) powi (e - 52) = 2 powi e / 2 powi 52" by (simp add: power_int_diff)
    then show ?thesis by (simp add: q_def)
  qed
  also have "\<dots> \<le> \<bar>x\<bar> / 2 ^ 53" using lo by (simp add: divide_right_mono)
  finally show ?thesis .
qed

lemma fl_finite:
  assumes "\<bar>round53 x\<bar> < 2 ^ 1024"
  shows "fl x = Fin (round53 x)"
proof (cases "round53 x = 0")
  case True
  then show ?thesis by (simp add: fl_def)
next
  case False
  then have pos: "0 < \<bar>round53 x\<bar>" by simp
  have "\<not> 1024 \<le> ilog2 \<bar>round53 x\<bar>"
  proof
    assume "1024 \<le> ilog2 \<bar>round53 x\<bar>"
    then have "(2::rat) powi 1024 \<le> 2 powi ilog2 \<bar>round53 x\<bar>"
      by (intro power_int_increasing) simp_all
    also have "\<dots> \<le> \<bar>round53 x\<bar>" using ilog2_bounds[OF pos] by simp
    finally show False using assms by simp
  qed
  with False show ?thesis by (simp add: fl_def Let_def)
qed

lemma fl_close:
  assumes "1 / 128 \<le> x" and "x \<le> 2 ^ 60"
  shows "\<exists>r. fl x = Fin r \<and> \<bar>r - x\<bar> \<le> x / 2 ^ 53"
proof -
  have "(2::rat) powi (- 1022) \<le> 2 powi (- 7)" by (intro power_int_increasing) simp_all
  also have "\<dots> = 1 / 128" by (simp add: power_int_minus inverse_eq_divide)
  finally have small: "(2::rat) powi (- 1022) \<le> 1 / 128" .
  have ax: "\<bar>x\<bar> = x" using assms by simp
  from small assms have "2 powi (- 1022) \<le> \<bar>x\<bar>" by (simp add: ax)
  from round53_error[OF this] have err: "\<bar>round53 x - x\<bar> \<le> x / 2 ^ 53" by (simp add: ax)
  have "x / 2 ^ 53 \<le> x" using assms by (simp add: field_simps)
  with err have "\<bar>round53 x\<bar> \<le> 2 * x" by linarith
  also have "\<dots> \<le> 2 * 2 ^ 60" using assms by simp
  also have "\<dots> < (2::rat) ^ 1024"
  proof -
    have "(2::rat) * 2 ^ 60 = 2 ^ 61" by simp
    also have "\<dots> < 2 ^ 1024" by (rule power_strict_increasing) simp_all
    finally show ?thesis .
  qed
  finally have "fl x = Fin (round53 x)" by (rule fl_finite)
  with err show ?thesis by blast
qed

lemma round_trip_pos:
  assumes "0 < m" and "m < 2 ^ 51"
  shows "toMinorUnits (toMajorUnits (Some (Fin (of_nat m)))) = Fin (of_nat m)"
proof -
  define M :: rat where "M = of_nat m"
  have M1: "1 \<le> M" using assms by (simp add: M_def)
  have "m \<le> 2 ^ 51 - 1" using assms by simp
  then have "of_nat m \<le> (of_nat (2 ^ 51 - 1) :: rat)" by (simp only: of_nat_le_iff)
  then have Mhi: "M \<le> 2 ^ 51 - 1" by (simp add: M_def)
  define x where "x = M / 100"
  have x_lo: "1 / 128 \<le> x" using M1 by (simp add: x_def)
  have x_hi: "x \<le> 2 ^ 60" using Mhi by (simp add: x_def)
  from fl_close[OF x_lo x_hi] obtain a where a: "fl x = Fin a" and ea: "\<bar>a - x\<bar> \<le> x / 2 ^ 53"
    by blast
  have major: "toMajorUnits (Some (Fin M)) = Fin a"
    using M1 a by (simp add: toMajorUnits_def or_else_def x_def)
  define y where "y = a * 100"
  have y_eq: "\<bar>y - M\<bar> \<le> M / 2 ^ 53"
  proof -
    have "y - M = (a - x) * 100" by (simp add: y_def x_def algebra_simps)
    then have "\<bar>y - M\<bar> = \<bar>a - x\<bar> * \<bar>100\<bar>" by (simp only: abs_mult)
    then have "\<bar>y - M\<bar> = \<bar>a - x\<bar> * 100" by simp
    also have "\<dots> \<le> x / 2 ^ 53 * 100" using ea by simp
    also have "\<dots> = M / 2 ^ 53" by (simp add: x_def)
    finally show ?thesis .
  qed
  have Mhi': "M \<le> 2251799813685247" using Mhi by simp
  have y_eq': "\<bar>y - M\<bar> \<le> M / 9007199254740992" using y_eq by simp
  have y_lo: "1 / 128 \<le> y" using y_eq' M1 by linarith
  have "y \<le> 4503599627370496" using y_eq' Mhi' M1 by linarith
  also have "\<dots> \<le> (2::rat) ^ 60" by simp
  finally have y_hi: "y \<le> 2 ^ 60" .
  from fl_close[OF y_lo y_hi] obtain b where b: "fl y = Fin b" and eb: "\<bar>b - y\<bar> \<le> y / 2 ^ 53"
    by blast
  have minor: "toMinorUnits (Fin a) = Fin (of_int (round b))"
    using b by (simp add: toMinorUnits_def y_def)
  have eb': "\<bar>b - y\<bar> \<le> y / 9007199254740992" using eb by simp
  have close: "\<bar>b - M\<bar> < 1 / 2"
    using eb' y_eq' Mhi' M1 by linarith
  have "round b = int m"
  proof (rule round_unique)
    have "rat_of_int (int m) = M" by (simp add: M_def)
    with close show "b - 1 / 2 < rat_of_int (int m)" by linarith
    have "rat_of_int (int m) = M" by (simp add: M_def)
    with close show "rat_of_int (int m) \<le> b + 1 / 2" by linarith
  qed
  with major minor show ?thesis by (simp add: M_def)
qed

lemma round_trip_zero: "toMinorUnits (toMajorUnits (Some (Fin 0))) = Fin 0"
  by (simp add: toMinorUnits_def toMajorUnits_def or_else_def fl_def round53_def)

section \<open>What the service operations write\<close>

lemma getStatusTitle_confirmed: "getStatusTitle ''confirmed'' = Some ''confirmed''"
  by (simp add: getStatusTitle_def js_lookup_def titles_def)

lemma getStatusTitle_cancelled: "getStatusTitle ''cancelled'' = Some ''cancelled''"
  by (simp add: getStatusTitle_def js_lookup_def titles_def)

lemma getStatusTitle_pending: "getStatusTitle ''pending'' = Some ''awaiting payment''"
  by (simp add: getStatusTitle_def js_lookup_def titles_def)

lemma getStatusTitle_in_production: "getStatusTitle ''in_production'' = Some ''in production''"
  by (simp add: getStatusTitle_def js_lookup_def titles_def)

lemma getStatusTitle_shipped: "getStatusTitle ''shipped'' = Some ''shipped''"
  by (simp add: getStatusTitle_def js_lookup_def titles_def)

text \<open>
  A status named like a member of \<open>Object.prototype\<close> has no string title, and the
  update is refused before anything is written.
\<close>

lemma getStatusTitle_inherited: "getStatusTitle ''constructor'' = None"
  by (simp add: getStatusTitle_def js_lookup_def titles_def object_prototype_keys_def)

lemma orderStatuses_have_titles:
  "st \<in> set orderStatuses \<Longrightarrow> \<exists>t. getStatusTitle st = Some t"
  by (auto simp: orderStatuses_def getStatusTitle_def js_lookup_def titles_def)

lemma nonempty_Some [simp]: "nonempty (Some s) = (s \<noteq> [])"
  by (simp add: nonempty_def)

lemma orders_storedAt [simp]: "orders (storedAt w oid order) = (orders w)(oid \<mapsto> order)"
  by (simp add: storedAt_def)

lemma orders_called [simp]: "orders (called w c) = orders w"
  by (simp add: called_def)

lemma orders_clearCart [simp]: "orders (clearCart w u) = orders w"
  by (simp add: clearCart_def)

lemma orders_sendOrderConfirmation [simp]: "orders (sendOrderConfirmation w order e) = orders w"
  by (simp add: sendOrderConfirmation_def)

lemma orders_notifyStatusUpdate [simp]: "orders (notifyStatusUpdate w order old) = orders w"
  by (simp add: notifyStatusUpdate_def sendOrderStatusUpdate_def getUserById_def
        split: option.splits)

lemma status_moved [simp]: "status (moved order st t nt now) = st"
  by (simp add: moved_def)

lemma timeline_moved [simp]:
  "timeline (moved order st t nt now) = timeline order @ [entryFor st t nt now]"
  by (simp add: moved_def)

lemma constantPart_moved [simp]: "constantPart (moved order st t nt now) = constantPart order"
  by (simp add: moved_def constantPart_def)

lemma entries_with_moved:
  "entries_with st (moved order st t nt now) = Suc (entries_with st order)"
  by (simp add: entries_with_def moved_def entryFor_def)

lemma createOrder_effect:
  assumes "orders w newId = None"
  shows "OrderService_createOrder w now newId d =
           Inr (freshOrder newId d now, storedAt w newId (freshOrder newId d now))"
  using assms
  by (simp add: OrderService_createOrder_def freshOrder_def storedAt_def entryFor_def Let_def)

lemma updateOrderStatus_effect:
  assumes "orders w oid = Some order" and "getStatusTitle st = Some t"
  shows "OrderService_updateOrderStatus w now oid st nt =
           Inr (moved order st t nt now, storedAt w oid (moved order st t nt now))"
  using assms
  by (simp add: OrderService_updateOrderStatus_def moved_def storedAt_def entryFor_def Let_def)

lemma updateOrderStatus_failure:
  "OrderService_updateOrderStatus w now oid st nt = Inl e \<longleftrightarrow>
     (orders w oid = None \<and> e = RecordNotFound)
     \<or> (orders w oid \<noteq> None \<and> getStatusTitle st = None \<and> e = ArgumentValidationFailed)"
  by (auto simp: OrderService_updateOrderStatus_def Let_def split: option.splits)

lemma admin_updateOrderStatus_effect:
  assumes "userRole u = ''admin'' \<or> userRole u = ''superadmin''"
    and "orders w oid = Some order" and "getStatusTitle st = Some t"
  shows "updateOrderStatus w now u oid st nt =
           (Json 200 (Success (moved order st t nt now)),
            notifyStatusUpdate (storedAt w oid (moved order st t nt now)) order (status order))"
  using assms updateOrderStatus_effect[OF assms(2) assms(3), where now = now and nt = nt]
  by (auto simp: updateOrderStatus_def getOrderById_def)

lemma orders_worldWith: "orders (worldWith st) ''ord1'' = Some (orderIn st)"
  by (simp add: worldWith_def)

lemma userRole_admin: "userRole admin = ''admin''"
  by (simp add: userRole_def admin_def nonempty_def)

lemma getSupportedMethods_list:
  "getSupportedMethods = [''stripe'', ''paypal'', ''wechat'', ''alipay'']"
  by (simp add: getSupportedMethods_def gateways_def)

lemma map_of_gateways_stripe: "map_of gateways ''stripe'' = Some StripePaymentGateway"
  by (simp add: gateways_def)

lemma map_of_gateways_wechat: "map_of gateways ''wechat'' = Some WeChatPaymentGateway"
  by (simp add: gateways_def)

lemma map_of_gateways_None:
  "method \<notin> set getSupportedMethods \<Longrightarrow> map_of gateways method = None"
  by (simp add: getSupportedMethods_def map_of_eq_None_iff)

lemma map_of_gateways_paypal: "map_of gateways ''paypal'' = Some PayPalPaymentGateway"
  by (simp add: gateways_def)

lemma map_of_gateways_alipay: "map_of gateways ''alipay'' = Some AlipayPaymentGateway"
  by (simp add: gateways_def)

text \<open>
  One delivery of a payment notification that names an order in the store, whatever
  the order's status, at each of the three endpoints that authenticate nothing.
\<close>

lemma confirmOrder_effect:
  assumes "orders w oid = Some order"
  shows "confirmOrder w now oid nt result
           = (Json 200 result, storedAt w oid (confirmedAt order nt now))"
  by (simp add: confirmOrder_def confirmedAt_def
        updateOrderStatus_effect[OF assms getStatusTitle_confirmed])

lemma wechat_delivery:
  assumes "orders w oid = Some order" and "oid \<noteq> []" and "out_trade_no body = Some oid"
  shows "handleWeChatWebhook cfg p w now body
           = (Json 200 (Success (Unverified body)),
              storedAt w oid (confirmedAt order ''WeChat payment completed'' now))"
  using assms
  by (simp add: handleWeChatWebhook_def PaymentManager_handleWebhook_def map_of_gateways_wechat
        WeChatPaymentGateway_handleWebhook_def confirmOrder_effect)

lemma alipay_delivery:
  assumes "orders w oid = Some order" and "oid \<noteq> []" and "out_trade_no body = Some oid"
  shows "handleAlipayWebhook cfg p w now body
           = (Json 200 (Success (Unverified body)),
              storedAt w oid (confirmedAt order ''Alipay payment completed'' now))"
  using assms
  by (simp add: handleAlipayWebhook_def PaymentManager_handleWebhook_def map_of_gateways_alipay
        AlipayPaymentGateway_handleWebhook_def confirmOrder_effect)

lemma paypal_delivery:
  assumes "orders w oid = Some order" and "oid \<noteq> []"
    and "event_type body = Some ''PAYMENT.SALE.COMPLETED''"
    and "resource body = Some r" and "custom r = Some oid"
  shows "handlePayPalWebhook cfg p w now body signature
           = (Json 200 (Success (PayPalEvent (event_type body) (resource body))),
              storedAt w oid (confirmedAt order ''PayPal payment completed'' now))"
  using assms
  by (simp add: handlePayPalWebhook_def PaymentManager_handleWebhook_def map_of_gateways_paypal
        PayPalPaymentGateway_handleWebhook_def confirmOrder_effect)

lemma status_confirmedAt [simp]: "status (confirmedAt order nt now) = ''confirmed''"
  by (simp add: confirmedAt_def)

lemma timeline_confirmedAt [simp]:
  "timeline (confirmedAt order nt now)
     = timeline order @ [entryFor ''confirmed'' ''confirmed'' (Some nt) now]"
  by (simp add: confirmedAt_def)

lemma entries_with_confirmedAt [simp]:
  "entries_with ''confirmed'' (confirmedAt order nt now) = Suc (entries_with ''confirmed'' order)"
  by (simp add: confirmedAt_def entries_with_moved)

text \<open>
  A handler that confirms the named order whatever its status does so again when the
  request comes a second time.
\<close>

lemma second_delivery_effect:
  assumes "\<And>w order now. orders w oid = Some order \<Longrightarrow>
             handler w now = (answer, storedAt w oid (confirmedAt order nt now))"
    and "orders w oid = Some order"
  shows "handler (snd (handler w now)) now'
           = (answer,
              storedAt (storedAt w oid (confirmedAt order nt now)) oid
                (confirmedAt (confirmedAt order nt now) nt now'))"
proof -
  have first: "handler w now = (answer, storedAt w oid (confirmedAt order nt now))"
    using assms(2) by (rule assms(1))
  have "orders (storedAt w oid (confirmedAt order nt now)) oid = Some (confirmedAt order nt now)"
    by simp
  then have "handler (storedAt w oid (confirmedAt order nt now)) now'
               = (answer,
                  storedAt (storedAt w oid (confirmedAt order nt now)) oid
                    (confirmedAt (confirmedAt order nt now) nt now'))"
    by (rule assms(1))
  with first show ?thesis by simp
qed

lemma wechat_second_delivery:
  assumes "orders w oid = Some order" and "oid \<noteq> []" and "out_trade_no body = Some oid"
  shows "handleWeChatWebhook cfg p (snd (handleWeChatWebhook cfg p w now body)) now' body
           = (Json 200 (Success (Unverified body)),
              storedAt (storedAt w oid (confirmedAt order ''WeChat payment completed'' now)) oid
                (confirmedAt (confirmedAt order ''WeChat payment completed'' now)
                   ''WeChat payment completed'' now'))"
  by (rule second_delivery_effect[where handler = "\<lambda>w now. handleWeChatWebhook cfg p w now body",
            OF wechat_delivery[OF _ assms(2) assms(3)] assms(1)])

lemma alipay_second_delivery:
  assumes "orders w oid = Some order" and "oid \<noteq> []" and "out_trade_no body = Some oid"
  shows "handleAlipayWebhook cfg p (snd (handleAlipayWebhook cfg p w now body)) now' body
           = (Json 200 (Success (Unverified body)),
              storedAt (storedAt w oid (confirmedAt order ''Alipay payment completed'' now)) oid
                (confirmedAt (confirmedAt order ''Alipay payment completed'' now)
                   ''Alipay payment completed'' now'))"
  by (rule second_delivery_effect[where handler = "\<lambda>w now. handleAlipayWebhook cfg p w now body",
            OF alipay_delivery[OF _ assms(2) assms(3)] assms(1)])

lemma paypal_second_delivery:
  assumes "orders w oid = Some order" and "oid \<noteq> []"
    and "event_type body = Some ''PAYMENT.SALE.COMPLETED''"
    and "resource body = Some r" and "custom r = Some oid"
  shows "handlePayPalWebhook cfg p (snd (handlePayPalWebhook cfg p w now body signature)) now'
           body signature
           = (Json 200 (Success (PayPalEvent (event_type body) (resource body))),
              storedAt (storedAt w oid (confirmedAt order ''PayPal payment completed'' now)) oid
                (confirmedAt (confirmedAt order ''PayPal payment completed'' now)
                   ''PayPal payment completed'' now'))"
  by (rule second_delivery_effect[
            where handler = "\<lambda>w now. handlePayPalWebhook cfg p w now body signature",
            OF paypal_delivery[OF _ assms(2) assms(3) assms(4) assms(5)] assms(1)])

section \<open>C1: the status of an order is the status of its last timeline entry\<close>

text \<open>
  C1. An order returned by \<open>OrderService.createOrder\<close>, and an order returned by
  \<open>OrderService.updateOrderStatus\<close>, has a non-empty timeline whose last entry carries
  the order's status, and it is that order which the store then holds under the id.
  (A call that throws returns no order and writes nothing.)
\<close>

theorem status_equals_last_timeline_status:
  "(OrderService_createOrder w now newId d = Inr (order, w')
      \<longrightarrow> status_matches_timeline order \<and> orders w' newId = Some order)
   \<and> (OrderService_updateOrderStatus w now oid st nt = Inr (order, w')
      \<longrightarrow> status_matches_timeline order \<and> orders w' oid = Some order)"
  by (auto simp: OrderService_createOrder_def OrderService_updateOrderStatus_def
        status_matches_timeline_def Let_def split: if_splits option.splits)

theorem status_equals_last_timeline_status_witness:
  "OrderService_createOrder (worldWith ''pending'') 3000 ''ord2'' sampleData
     = Inr (freshOrder ''ord2'' sampleData 3000,
            storedAt (worldWith ''pending'') ''ord2'' (freshOrder ''ord2'' sampleData 3000))
   \<and> status_matches_timeline (freshOrder ''ord2'' sampleData 3000)
   \<and> OrderService_updateOrderStatus (worldWith ''pending'') 3000 ''ord1'' ''confirmed'' None
     = Inr (moved (orderIn ''pending'') ''confirmed'' ''confirmed'' None 3000,
            storedAt (worldWith ''pending'') ''ord1''
              (moved (orderIn ''pending'') ''confirmed'' ''confirmed'' None 3000))
   \<and> status_matches_timeline (moved (orderIn ''pending'') ''confirmed'' ''confirmed'' None 3000)"
proof -
  have "orders (worldWith ''pending'') ''ord2'' = None" by (simp add: worldWith_def)
  then have c: "OrderService_createOrder (worldWith ''pending'') 3000 ''ord2'' sampleData
     = Inr (freshOrder ''ord2'' sampleData 3000,
            storedAt (worldWith ''pending'') ''ord2'' (freshOrder ''ord2'' sampleData 3000))"
    by (rule createOrder_effect)
  have u: "OrderService_updateOrderStatus (worldWith ''pending'') 3000 ''ord1'' ''confirmed'' None
     = Inr (moved (orderIn ''pending'') ''confirmed'' ''confirmed'' None 3000,
            storedAt (worldWith ''pending'') ''ord1''
              (moved (orderIn ''pending'') ''confirmed'' ''confirmed'' None 3000))"
    by (rule updateOrderStatus_effect[OF orders_worldWith getStatusTitle_confirmed])
  from c u status_equals_last_timeline_status show ?thesis by blast
qed

section \<open>C2: a redelivered payment webhook\<close>

text \<open>
  C2 as stated fails. The sample order is pending. The first delivery of its payment
  notification to the WeChat endpoint is answered with success and confirms it: the
  timeline has one \<open>confirmed\<close> entry. The second delivery, which finds the order
  confirmed, is answered with success too and appends a second \<open>confirmed\<close> entry.
\<close>

theorem second_delivery_appends_again_counterexample:
  "fst (handleWeChatWebhook sampleConfig sampleProviders (worldWith ''pending'') 3000
          wechatNotification) = Json 200 (Success (Unverified wechatNotification))
   \<and> map_option status
       (orders (snd (handleWeChatWebhook sampleConfig sampleProviders (worldWith ''pending'')
                       3000 wechatNotification)) ''ord1'') = Some ''confirmed''
   \<and> map_option (entries_with ''confirmed'')
       (orders (snd (handleWeChatWebhook sampleConfig sampleProviders (worldWith ''pending'')
                       3000 wechatNotification)) ''ord1'') = Some 1
   \<and> fst (handleWeChatWebhook sampleConfig sampleProviders
            (snd (handleWeChatWebhook sampleConfig sampleProviders (worldWith ''pending'')
                    3000 wechatNotification))
            4000 wechatNotification) = Json 200 (Success (Unverified wechatNotification))
   \<and> map_option (entries_with ''confirmed'')
       (orders (snd (handleWeChatWebhook sampleConfig sampleProviders
                       (snd (handleWeChatWebhook sampleConfig sampleProviders
                               (worldWith ''pending'') 3000 wechatNotification))
                       4000 wechatNotification)) ''ord1'') = Some 2"
proof -
  have b: "out_trade_no wechatNotification = Some ''ord1''"
    by (simp add: wechatNotification_def emptyBody_def)
  have n: "''ord1'' \<noteq> []" by simp
  note d1 = wechat_delivery[OF orders_worldWith n b, where now = 3000 and st1 = "''pending''"
              and cfg = sampleConfig and p = sampleProviders]
  note d2 = wechat_second_delivery[OF orders_worldWith n b, where now = 3000 and now' = 4000
              and st1 = "''pending''" and cfg = sampleConfig and p = sampleProviders]
  have e0: "entries_with ''confirmed'' (orderIn ''pending'') = 0"
    by (simp add: entries_with_def orderIn_def)
  show ?thesis unfolding d2 unfolding d1 by (simp add: e0)
qed

text \<open>
  C2, amended. (The Stripe endpoint hands \<open>constructEvent\<close> the parsed body and acts only
  if that is accepted; the three other webhook endpoints authenticate nothing.) Every
  delivery of a payment notification that names an existing order to the WeChat or
  Alipay endpoint (\<open>out_trade_no\<close>), or to the PayPal endpoint (event
  \<open>PAYMENT.SALE.COMPLETED\<close> with the order in \<open>resource.custom\<close>), is answered with success,
  sets the order's status to \<open>confirmed\<close> and appends one timeline entry for
  \<open>confirmed\<close>, whatever the status was; the same notification delivered twice is
  answered with success both times and leaves two such entries more than there were,
  stamped with the two delivery times.
\<close>

theorem each_delivery_appends_a_confirmed_entry:
  assumes "orders w oid = Some order" and "oid \<noteq> []"
  shows "(out_trade_no body = Some oid \<longrightarrow>
            handleWeChatWebhook cfg p w now body
              = (Json 200 (Success (Unverified body)),
                 storedAt w oid (confirmedAt order ''WeChat payment completed'' now))
            \<and> handleWeChatWebhook cfg p (snd (handleWeChatWebhook cfg p w now body)) now' body
              = (Json 200 (Success (Unverified body)),
                 storedAt (storedAt w oid (confirmedAt order ''WeChat payment completed'' now)) oid
                   (confirmedAt (confirmedAt order ''WeChat payment completed'' now)
                      ''WeChat payment completed'' now'))
            \<and> handleAlipayWebhook cfg p w now body
              = (Json 200 (Success (Unverified body)),
                 storedAt w oid (confirmedAt order ''Alipay payment completed'' now))
            \<and> handleAlipayWebhook cfg p (snd (handleAlipayWebhook cfg p w now body)) now' body
              = (Json 200 (Success (Unverified body)),
                 storedAt (storedAt w oid (confirmedAt order ''Alipay payment completed'' now)) oid
                   (confirmedAt (confirmedAt order ''Alipay payment completed'' now)
                      ''Alipay payment completed'' now')))
         \<and> (event_type body = Some ''PAYMENT.SALE.COMPLETED''
              \<and> resource body = Some r \<and> custom r = Some oid \<longrightarrow>
            handlePayPalWebhook cfg p w now body signature
              = (Json 200 (Success (PayPalEvent (event_type body) (resource body))),
                 storedAt w oid (confirmedAt order ''PayPal payment completed'' now))
            \<and> handlePayPalWebhook cfg p (snd (handlePayPalWebhook cfg p w now body signature))
                 now' body signature
              = (Json 200 (Success (PayPalEvent (event_type body) (resource body))),
                 storedAt (storedAt w oid (confirmedAt order ''PayPal payment completed'' now)) oid
                   (confirmedAt (confirmedAt order ''PayPal payment completed'' now)
                      ''PayPal payment completed'' now')))
         \<and> status (confirmedAt order nt now) = ''confirmed''
         \<and> timeline (confirmedAt order nt now)
             = timeline order @ [entryFor ''confirmed'' ''confirmed'' (Some nt) now]
         \<and> status (confirmedAt (confirmedAt order nt now) nt now') = ''confirmed''
         \<and> timeline (confirmedAt (confirmedAt order nt now) nt now')
             = timeline order @ [entryFor ''confirmed'' ''confirmed'' (Some nt) now,
                                 entryFor ''confirmed'' ''confirmed'' (Some nt) now']
         \<and> entries_with ''confirmed'' (confirmedAt (confirmedAt order nt now) nt now')
             = entries_with ''confirmed'' order + 2"
proof (intro conjI impI)
  assume b: "out_trade_no body = Some oid"
  show "handleWeChatWebhook cfg p w now body
          = (Json 200 (Success (Unverified body)),
             storedAt w oid (confirmedAt order ''WeChat payment completed'' now))"
    by (rule wechat_delivery[OF assms b])
  show "handleWeChatWebhook cfg p (snd (handleWeChatWebhook cfg p w now body)) now' body
          = (Json 200 (Success (Unverified body)),
             storedAt (storedAt w oid (confirmedAt order ''WeChat payment completed'' now)) oid
               (confirmedAt (confirmedAt order ''WeChat payment completed'' now)
                  ''WeChat payment completed'' now'))"
    by (rule wechat_second_delivery[OF assms b])
  show "handleAlipayWebhook cfg p w now body
          = (Json 200 (Success (Unverified body)),
             storedAt w oid (confirmedAt order ''Alipay payment completed'' now))"
    by (rule alipay_delivery[OF assms b])
  show "handleAlipayWebhook cfg p (snd (handleAlipayWebhook cfg p w now body)) now' body
          = (Json 200 (Success (Unverified body)),
             storedAt (storedAt w oid (confirmedAt order ''Alipay payment completed'' now)) oid
               (confirmedAt (confirmedAt order ''Alipay payment completed'' now)
                  ''Alipay payment completed'' now'))"
    by (rule alipay_second_delivery[OF assms b])
next
  assume c: "event_type body = Some ''PAYMENT.SALE.COMPLETED''
              \<and> resource body = Some r \<and> custom r = Some oid"
  then have c1: "event_type body = Some ''PAYMENT.SALE.COMPLETED''"
    and c2: "resource body = Some r" and c3: "custom r = Some oid"
    by simp_all
  show "handlePayPalWebhook cfg p w now body signature
          = (Json 200 (Success (PayPalEvent (event_type body) (resource body))),
             storedAt w oid (confirmedAt order ''PayPal payment completed'' now))"
    by (rule paypal_delivery[OF assms c1 c2 c3])
  show "handlePayPalWebhook cfg p (snd (handlePayPalWebhook cfg p w now body signature))
          now' body signature
          = (Json 200 (Success (PayPalEvent (event_type body) (resource body))),
             storedAt (storedAt w oid (confirmedAt order ''PayPal payment completed'' now)) oid
               (confirmedAt (confirmedAt order ''PayPal payment completed'' now)
                  ''PayPal payment completed'' now'))"
    by (rule paypal_second_delivery[OF assms c1 c2 c3])
qed simp_all

theorem each_delivery_appends_a_confirmed_entry_witness:
  "orders (worldWith ''shipped'') ''ord1'' = Some (orderIn ''shipped'')
   \<and> out_trade_no wechatNotification = Some ''ord1''
   \<and> handleWeChatWebhook sampleConfig sampleProviders
        (snd (handleWeChatWebhook sampleConfig sampleProviders (worldWith ''shipped'') 3000
                wechatNotification))
        4000 wechatNotification
       = (Json 200 (Success (Unverified wechatNotification)),
          storedAt (storedAt (worldWith ''shipped'') ''ord1''
                      (confirmedAt (orderIn ''shipped'') ''WeChat payment completed'' 3000)) ''ord1''
            (confirmedAt (confirmedAt (orderIn ''shipped'') ''WeChat payment completed'' 3000)
               ''WeChat payment completed'' 4000))
   \<and> event_type paypalNotification = Some ''PAYMENT.SALE.COMPLETED''
   \<and> resource paypalNotification = Some \<lparr> custom = Some ''ord1'' \<rparr>
   \<and> handlePayPalWebhook sampleConfig sampleProviders (worldWith ''shipped'') 3000
        paypalNotification ''sig''
       = (Json 200 (Success (PayPalEvent (Some ''PAYMENT.SALE.COMPLETED'')
                               (Some \<lparr> custom = Some ''ord1'' \<rparr>))),
          storedAt (worldWith ''shipped'') ''ord1''
            (confirmedAt (orderIn ''shipped'') ''PayPal payment completed'' 3000))
   \<and> status (confirmedAt (confirmedAt (orderIn ''shipped'') ''WeChat payment completed'' 3000)
               ''WeChat payment completed'' 4000) = ''confirmed''
   \<and> entries_with ''confirmed''
        (confirmedAt (confirmedAt (orderIn ''shipped'') ''WeChat payment completed'' 3000)
           ''WeChat payment completed'' 4000)
       = entries_with ''confirmed'' (orderIn ''shipped'') + 2"
proof -
  have b: "out_trade_no wechatNotification = Some ''ord1''"
    by (simp add: wechatNotification_def emptyBody_def)
  have c: "event_type paypalNotification = Some ''PAYMENT.SALE.COMPLETED''"
    "resource paypalNotification = Some \<lparr> custom = Some ''ord1'' \<rparr>"
    "custom \<lparr> custom = Some ''ord1'' \<rparr> = Some ''ord1''"
    by (simp_all add: paypalNotification_def emptyBody_def)
  have n: "''ord1'' \<noteq> []" by simp
  note wechat = each_delivery_appends_a_confirmed_entry[OF orders_worldWith n,
         where body = wechatNotification and cfg = sampleConfig and p = sampleProviders
           and now = 3000 and now' = 4000 and st1 = "''shipped''"
           and nt = "''WeChat payment completed''" and r = "\<lparr> custom = None \<rparr>"
           and signature = "[]"]
  note paypal = each_delivery_appends_a_confirmed_entry[OF orders_worldWith n,
         where body = paypalNotification and cfg = sampleConfig and p = sampleProviders
           and now = 3000 and now' = 4000 and r = "\<lparr> custom = Some ''ord1'' \<rparr>"
           and signature = "''sig''" and st1 = "''shipped''"
           and nt = "''PayPal payment completed''"]
  from wechat b
  have w2: "handleWeChatWebhook sampleConfig sampleProviders
        (snd (handleWeChatWebhook sampleConfig sampleProviders (worldWith ''shipped'') 3000
                wechatNotification))
        4000 wechatNotification
       = (Json 200 (Success (Unverified wechatNotification)),
          storedAt (storedAt (worldWith ''shipped'') ''ord1''
                      (confirmedAt (orderIn ''shipped'') ''WeChat payment completed'' 3000)) ''ord1''
            (confirmedAt (confirmedAt (orderIn ''shipped'') ''WeChat payment completed'' 3000)
               ''WeChat payment completed'' 4000))"
    by blast
  from paypal c
  have "handlePayPalWebhook sampleConfig sampleProviders (worldWith ''shipped'') 3000
        paypalNotification ''sig''
       = (Json 200 (Success (PayPalEvent (event_type paypalNotification)
                               (resource paypalNotification))),
          storedAt (worldWith ''shipped'') ''ord1''
            (confirmedAt (orderIn ''shipped'') ''PayPal payment completed'' 3000))"
    by blast
  then have p1: "handlePayPalWebhook sampleConfig sampleProviders (worldWith ''shipped'') 3000
        paypalNotification ''sig''
       = (Json 200 (Success (PayPalEvent (Some ''PAYMENT.SALE.COMPLETED'')
                               (Some \<lparr> custom = Some ''ord1'' \<rparr>))),
          storedAt (worldWith ''shipped'') ''ord1''
            (confirmedAt (orderIn ''shipped'') ''PayPal payment completed'' 3000))"
    by (simp only: c)
  from wechat
  have s2: "status (confirmedAt (confirmedAt (orderIn ''shipped'') ''WeChat payment completed''
                      3000) ''WeChat payment completed'' 4000) = ''confirmed''"
    and e2: "entries_with ''confirmed''
        (confirmedAt (confirmedAt (orderIn ''shipped'') ''WeChat payment completed'' 3000)
           ''WeChat payment completed'' 4000)
       = entries_with ''confirmed'' (orderIn ''shipped'') + 2"
    by blast+
  show ?thesis by (intro conjI orders_worldWith b w2 c(1) c(2) p1 s2 e2)
qed

section \<open>C3: terminal states\<close>

text \<open>
  C3 as stated fails. The sample order is \<open>delivered\<close>; an administrator's status
  update to \<open>in_production\<close> is answered with success, the stored order then has status
  \<open>in_production\<close>, and its timeline is one entry longer.
\<close>

theorem terminal_state_left_counterexample:
  "status (orderIn ''delivered'') = ''delivered''
   \<and> orders (worldWith ''delivered'') ''ord1'' = Some (orderIn ''delivered'')
   \<and> fst (updateOrderStatus (worldWith ''delivered'') 3000 admin ''ord1'' ''in_production'' None)
       = Json 200 (Success (moved (orderIn ''delivered'') ''in_production'' ''in production'' None 3000))
   \<and> orders (snd (updateOrderStatus (worldWith ''delivered'') 3000 admin ''ord1''
                    ''in_production'' None)) ''ord1''
       = Some (moved (orderIn ''delivered'') ''in_production'' ''in production'' None 3000)
   \<and> status (moved (orderIn ''delivered'') ''in_production'' ''in production'' None 3000)
       = ''in_production''
   \<and> length (timeline (moved (orderIn ''delivered'') ''in_production'' ''in production'' None 3000))
       = Suc (length (timeline (orderIn ''delivered'')))"
proof -
  note e = admin_updateOrderStatus_effect[OF disjI1[OF userRole_admin] orders_worldWith
          getStatusTitle_in_production, where now = 3000 and nt = None]
  have s: "status (orderIn ''delivered'') = ''delivered''" by (simp add: orderIn_def)
  show ?thesis by (simp add: e s orders_worldWith)
qed

text \<open>
  C3, amended. For every order whose status is \<open>delivered\<close> or \<open>cancelled\<close>, the buyer's
  cancel operation refuses to act and leaves the store as it was (with
  \<open>CANNOT_CANCEL_ORDER\<close> for the owner, \<open>ACCESS_DENIED\<close> for anyone else). The
  status-update operation has no such guard: for each of the nine statuses as target it
  sets the status of such an order to the target and appends the entry.
\<close>

theorem cancel_refused_in_terminal_state:
  assumes "orders w oid = Some order"
    and "status order = ''delivered'' \<or> status order = ''cancelled''"
  shows "cancelOrder w now u oid reason =
           (if userId order = uid u then Json 400 (Failure ''CANNOT_CANCEL_ORDER'')
            else Json 403 (Failure ''ACCESS_DENIED''), w)
         \<and> (st \<in> set orderStatuses \<longrightarrow>
               OrderService_updateOrderStatus w now' oid st nt =
                 Inr (moved order st (the (getStatusTitle st)) nt now',
                      storedAt w oid (moved order st (the (getStatusTitle st)) nt now')))"
proof (intro conjI impI)
  show "cancelOrder w now u oid reason =
           (if userId order = uid u then Json 400 (Failure ''CANNOT_CANCEL_ORDER'')
            else Json 403 (Failure ''ACCESS_DENIED''), w)"
    using assms by (auto simp: cancelOrder_def getOrderById_def)
next
  assume "st \<in> set orderStatuses"
  then obtain t where t: "getStatusTitle st = Some t"
    using orderStatuses_have_titles by blast
  from updateOrderStatus_effect[OF assms(1) t, where now = now' and nt = nt] t
  show "OrderService_updateOrderStatus w now' oid st nt =
          Inr (moved order st (the (getStatusTitle st)) nt now',
               storedAt w oid (moved order st (the (getStatusTitle st)) nt now'))"
    by simp
qed

theorem cancel_refused_in_terminal_state_witness:
  "orders (worldWith ''delivered'') ''ord1'' = Some (orderIn ''delivered'')
   \<and> status (orderIn ''delivered'') = ''delivered''
   \<and> cancelOrder (worldWith ''delivered'') 3000 alice ''ord1'' None
       = (Json 400 (Failure ''CANNOT_CANCEL_ORDER''), worldWith ''delivered'')
   \<and> ''pending'' \<in> set orderStatuses
   \<and> OrderService_updateOrderStatus (worldWith ''delivered'') 4000 ''ord1'' ''pending'' None
       = Inr (moved (orderIn ''delivered'') ''pending'' ''awaiting payment'' None 4000,
              storedAt (worldWith ''delivered'') ''ord1''
                (moved (orderIn ''delivered'') ''pending'' ''awaiting payment'' None 4000))"
proof -
  have s: "status (orderIn ''delivered'') = ''delivered''" by (simp add: orderIn_def)
  have o: "userId (orderIn ''delivered'') = uid alice" by (simp add: orderIn_def alice_def)
  from cancel_refused_in_terminal_state[OF orders_worldWith disjI1[OF s],
         where now = 3000 and u = alice and reason = None and st = "''pending''"
           and now' = 4000 and nt = None]
  show ?thesis
    using s o getStatusTitle_pending orders_worldWith by (simp add: orderStatuses_def)
qed

section \<open>C4: cancellation\<close>

text \<open>
  C4 as stated fails. The sample order is \<open>shipped\<close>, which is neither \<open>pending\<close> nor
  \<open>confirmed\<close>; an administrator's status update to \<open>cancelled\<close> is answered with
  success and the stored order is then \<open>cancelled\<close>.
\<close>

theorem admin_cancels_shipped_order_counterexample:
  "status (orderIn ''shipped'') = ''shipped''
   \<and> orders (worldWith ''shipped'') ''ord1'' = Some (orderIn ''shipped'')
   \<and> fst (updateOrderStatus (worldWith ''shipped'') 3000 admin ''ord1'' ''cancelled''
              (Some ''out of stock''))
       = Json 200 (Success (moved (orderIn ''shipped'') ''cancelled'' ''cancelled''
                              (Some ''out of stock'') 3000))
   \<and> orders (snd (updateOrderStatus (worldWith ''shipped'') 3000 admin ''ord1'' ''cancelled''
                    (Some ''out of stock''))) ''ord1''
       = Some (moved (orderIn ''shipped'') ''cancelled'' ''cancelled'' (Some ''out of stock'') 3000)
   \<and> status (moved (orderIn ''shipped'') ''cancelled'' ''cancelled'' (Some ''out of stock'') 3000)
       = ''cancelled''"
proof -
  note e = admin_updateOrderStatus_effect[OF disjI1[OF userRole_admin] orders_worldWith
          getStatusTitle_cancelled, where now = 3000 and nt = "Some ''out of stock''"]
  have s: "status (orderIn ''shipped'') = ''shipped''" by (simp add: orderIn_def)
  show ?thesis by (simp add: e s orders_worldWith)
qed

text \<open>
  C4, amended. For every order in the store, the cancel operation called by the
  order's owner succeeds if and only if the order's status is \<open>pending\<close> or
  \<open>confirmed\<close>: then it answers with the order moved to \<open>cancelled\<close>, which is what
  the store then holds; from any other status it answers 400 with
  \<open>CANNOT_CANCEL_ORDER\<close> and leaves the store, and so the order's status and timeline,
  as they were. (A status update to \<open>cancelled\<close> by an administrator is not guarded.)
\<close>

theorem owner_cancel_succeeds_iff_pending_or_confirmed:
  assumes "orders w oid = Some order" and "userId order = uid u"
  shows "cancelOrder w now u oid reason =
           (if status order = ''pending'' \<or> status order = ''confirmed''
            then (Json 200 (Success (moved order ''cancelled'' ''cancelled''
                                       (Some (cancelNote reason)) now)),
                  notifyStatusUpdate
                    (storedAt w oid (moved order ''cancelled'' ''cancelled''
                                       (Some (cancelNote reason)) now))
                    order (status order))
            else (Json 400 (Failure ''CANNOT_CANCEL_ORDER''), w))
         \<and> orders (snd (cancelOrder w now u oid reason)) oid =
             Some (if status order = ''pending'' \<or> status order = ''confirmed''
                   then moved order ''cancelled'' ''cancelled'' (Some (cancelNote reason)) now
                   else order)"
  using assms
  by (simp add: cancelOrder_def getOrderById_def cancelNote_def
        updateOrderStatus_effect[OF assms(1) getStatusTitle_cancelled])

theorem owner_cancel_succeeds_iff_pending_or_confirmed_witness:
  "orders (worldWith ''confirmed'') ''ord1'' = Some (orderIn ''confirmed'')
   \<and> userId (orderIn ''confirmed'') = uid alice
   \<and> fst (cancelOrder (worldWith ''confirmed'') 3000 alice ''ord1'' None)
       = Json 200 (Success (moved (orderIn ''confirmed'') ''cancelled'' ''cancelled''
                              (Some ''cancelled by the user'') 3000))
   \<and> orders (worldWith ''shipped'') ''ord1'' = Some (orderIn ''shipped'')
   \<and> userId (orderIn ''shipped'') = uid alice
   \<and> cancelOrder (worldWith ''shipped'') 3000 alice ''ord1'' None
       = (Json 400 (Failure ''CANNOT_CANCEL_ORDER''), worldWith ''shipped'')"
proof -
  have o: "userId (orderIn st) = uid alice" for st by (simp add: orderIn_def alice_def)
  have s: "status (orderIn st) = st" for st by (simp add: orderIn_def)
  have n: "cancelNote None = ''cancelled by the user''" by (simp add: cancelNote_def nonempty_def)
  from owner_cancel_succeeds_iff_pending_or_confirmed[OF orders_worldWith o,
         where now = 3000 and reason = None and st1 = "''confirmed''"]
       owner_cancel_succeeds_iff_pending_or_confirmed[OF orders_worldWith o,
         where now = 3000 and reason = None and st1 = "''shipped''"]
  show ?thesis by (simp add: o s n orders_worldWith)
qed

section \<open>C5: a webhook whose signature does not verify\<close>

text \<open>
  C5. If \<open>constructEvent\<close> rejects the payload and signature under the configured
  webhook secret, the Stripe adapter's \<open>handleWebhook\<close> returns the error
  \<open>STRIPE_WEBHOOK_ERROR\<close>, so does the manager, and the webhook endpoint passes that
  error on and leaves the outside state, the orders and their timelines included, exactly
  as it was.
\<close>

theorem invalid_signature_is_rejected_without_effect:
  assumes "constructEvent p payload signature (the (stripeWebhookSecret cfg)) = Inl msg"
  shows "StripePaymentGateway_handleWebhook cfg p payload signature = Failure ''STRIPE_WEBHOOK_ERROR''
         \<and> PaymentManager_handleWebhook cfg p ''stripe'' payload signature
             = Failure ''STRIPE_WEBHOOK_ERROR''
         \<and> handleStripeWebhook cfg p w now payload signature
             = (Json 200 (Failure ''STRIPE_WEBHOOK_ERROR''), w)"
  using assms
  by (simp add: StripePaymentGateway_handleWebhook_def PaymentManager_handleWebhook_def
        handleStripeWebhook_def map_of_gateways_stripe)

theorem invalid_signature_is_rejected_without_effect_witness:
  "constructEvent sampleProviders emptyBody ''forged'' (the (stripeWebhookSecret sampleConfig))
     = Inl ''No signatures found matching the expected signature for payload''
   \<and> handleStripeWebhook sampleConfig sampleProviders (worldWith ''pending'') 3000 emptyBody ''forged''
       = (Json 200 (Failure ''STRIPE_WEBHOOK_ERROR''), worldWith ''pending'')"
proof -
  have c: "constructEvent sampleProviders emptyBody ''forged'' (the (stripeWebhookSecret sampleConfig))
     = Inl ''No signatures found matching the expected signature for payload''"
    by (simp add: sampleProviders_def sampleConfig_def)
  from invalid_signature_is_rejected_without_effect[OF c] c show ?thesis by simp
qed

section \<open>C6: verifying a payment that has not been completed\<close>

text \<open>
  For Stripe and PayPal the claim holds: a session that is not \<open>paid\<close>, or a sale that
  is missing or not \<open>completed\<close>, gives a \<open>..._PAYMENT_NOT_COMPLETED\<close> error, and a
  failed verification changes no order.
\<close>

lemma stripe_verifyPayment_unpaid:
  assumes "nonempty (stripeSecretKey cfg)" and "sessionsRetrieve p paymentId = Inr session"
    and "payment_status session \<noteq> ''paid''"
  shows "StripePaymentGateway_verifyPayment cfg p w paymentId
           = (Failure ''STRIPE_PAYMENT_NOT_COMPLETED'', called w (StripeSessionsRetrieve paymentId))"
  using assms by (simp add: StripePaymentGateway_verifyPayment_def Let_def)

lemma paypal_verifyPayment_not_completed:
  assumes "nonempty (paypalClientId cfg)" and "nonempty (paypalClientSecret cfg)"
    and "paypalPaymentGet p paymentId = Inr sale"
    and "\<forall>s. sale = Some s \<longrightarrow> saleState s \<noteq> ''completed''"
  shows "PayPalPaymentGateway_verifyPayment cfg p w now paymentId
           = (Failure ''PAYPAL_PAYMENT_NOT_COMPLETED'', called w (PayPalPaymentGet paymentId))"
  using assms by (cases sale) (simp_all add: PayPalPaymentGateway_verifyPayment_def Let_def)

lemma failed_verification_keeps_orders:
  assumes "fst (PaymentManager_verifyPayment cfg p w now method paymentId) = Failure code"
  shows "fst (verifyPayment cfg p w now u paymentId (Some method) oid) \<noteq> Json 200 (Success d)
         \<and> orders (snd (verifyPayment cfg p w now u paymentId (Some method) oid)) = orders w"
proof -
  obtain w1 where r: "PaymentManager_verifyPayment cfg p w now method paymentId = (Failure code, w1)"
    using assms by (cases "PaymentManager_verifyPayment cfg p w now method paymentId") simp
  have "orders w1 = orders w"
  proof (cases "map_of gateways method")
    case None
    with r show ?thesis by (simp add: PaymentManager_verifyPayment_def)
  next
    case (Some g)
    with r have "gateway_verifyPayment g cfg p w now paymentId = (Failure code, w1)"
      by (simp add: PaymentManager_verifyPayment_def)
    then show ?thesis
      by (cases g)
        (auto simp: StripePaymentGateway_verifyPayment_def
           PayPalPaymentGateway_verifyPayment_def WeChatPaymentGateway_verifyPayment_def
           AlipayPaymentGateway_verifyPayment_def Let_def
           split: option.splits sum.splits if_splits)
  qed
  then show ?thesis
    by (auto simp: verifyPayment_def r split: option.splits)
qed

text \<open>
  C6 fails for the WeChat and Alipay adapters. Their \<open>verifyPayment\<close> asks no provider:
  for every payment id it returns success with status \<open>completed\<close>. Verifying a
  payment that was never made, with method \<open>wechat\<close>, for the pending sample order
  therefore answers with success and moves the order to \<open>confirmed\<close>.
\<close>

theorem simulated_verification_always_reports_completed:
  "WeChatPaymentGateway_verifyPayment w now paymentId
     = (Success (completedResult ''wechat'' paymentId now), w)
   \<and> AlipayPaymentGateway_verifyPayment w now paymentId
     = (Success (completedResult ''alipay'' paymentId now), w)
   \<and> status (orderIn ''pending'') = ''pending''
   \<and> verifyPayment sampleConfig sampleProviders (worldWith ''pending'') 3000 alice
        ''never-paid'' (Some ''wechat'') ''ord1''
     = (Json 200 (Success (completedResult ''wechat'' ''never-paid'' 3000)),
        storedAt (worldWith ''pending'') ''ord1''
          (moved (orderIn ''pending'') ''confirmed'' ''confirmed'' (Some ''payment verified'') 3000))"
proof -
  have wechat: "WeChatPaymentGateway_verifyPayment w now paymentId
                  = (Success (completedResult ''wechat'' paymentId now), w)" for w now paymentId
    by (simp add: WeChatPaymentGateway_verifyPayment_def completedResult_def)
  have alipay: "AlipayPaymentGateway_verifyPayment w now paymentId
                  = (Success (completedResult ''alipay'' paymentId now), w)"
    by (simp add: AlipayPaymentGateway_verifyPayment_def completedResult_def)
  have o: "userId (orderIn ''pending'') = uid alice" by (simp add: orderIn_def alice_def)
  have s: "status (orderIn ''pending'') = ''pending''" by (simp add: orderIn_def)
  have c: "prSuccess (completedResult ''wechat'' ''never-paid'' 3000)"
    "prStatus (completedResult ''wechat'' ''never-paid'' 3000) = ''completed''"
    by (simp_all add: completedResult_def)
  have v: "verifyPayment sampleConfig sampleProviders (worldWith ''pending'') 3000 alice
        ''never-paid'' (Some ''wechat'') ''ord1''
     = (Json 200 (Success (completedResult ''wechat'' ''never-paid'' 3000)),
        storedAt (worldWith ''pending'') ''ord1''
          (moved (orderIn ''pending'') ''confirmed'' ''confirmed'' (Some ''payment verified'') 3000))"
    by (simp add: verifyPayment_def getOrderById_def orders_worldWith o
          PaymentManager_verifyPayment_def map_of_gateways_wechat wechat c
          updateOrderStatus_effect[OF orders_worldWith getStatusTitle_confirmed])
  from wechat alipay s v show ?thesis by simp
qed

section \<open>C7: a payment method that is not registered\<close>

lemma toMinorUnits_299: "toMinorUnits (Fin 299) = Fin 29900"
  by code_simp

text \<open>
  C7 as stated fails at the HTTP endpoint. \<open>bitcoin\<close> is not a registered method, yet
  creating a payment with it for the pending sample order is answered with a Stripe
  checkout session, and a \<open>sessions.create\<close> request has gone to Stripe.
\<close>

theorem unregistered_method_reaches_stripe_counterexample:
  "''bitcoin'' \<notin> set getSupportedMethods
   \<and> createPayment sampleConfig sampleProviders (worldWith ''pending'') alice ''ord1'' ''bitcoin''
        None None
       = (Json 200 (Success (CheckoutSession ''cs_1'' (Some ''https://checkout.stripe.example/cs_1''))),
          called (worldWith ''pending'') (StripeSessionsCreate ''ord1'' [(Fin 29900, Fin 1)]))"
proof -
  have m: "''bitcoin'' \<notin> set getSupportedMethods" by (simp add: getSupportedMethods_list)
  have o: "userId (orderIn ''pending'') = uid alice" by (simp add: orderIn_def alice_def)
  have s: "status (orderIn ''pending'') = ''pending''" by (simp add: orderIn_def)
  have i: "items (orderIn ''pending'')
             = [\<lparr> productName = ''figurine'', quantity = Fin 1, totalPrice = Fin 299 \<rparr>]"
    by (simp add: orderIn_def)
  have k: "nonempty (stripeSecretKey sampleConfig)" by (simp add: sampleConfig_def)
  have c: "sessionsCreate sampleProviders oid l = Inr openSession" for oid l
    by (simp add: sampleProviders_def)
  have oi: "orderId (orderIn ''pending'') = ''ord1''" by (simp add: orderIn_def)
  have os: "sessionId openSession = ''cs_1''"
    "sessionUrl openSession = Some ''https://checkout.stripe.example/cs_1''"
    by (simp_all add: openSession_def)
  show ?thesis
    by (simp add: m createPayment_def getOrderById_def orders_worldWith o s
          PaymentManager_createPayment_def map_of_gateways_stripe
          StripePaymentGateway_createPayment_def k i c oi os toMinorUnits_299 Let_def)
qed

text \<open>
  C7, amended. For every method string other than \<open>stripe\<close>, \<open>paypal\<close>, \<open>wechat\<close> and
  \<open>alipay\<close>, \<open>PaymentManager.createPayment\<close> returns the error
  \<open>UNSUPPORTED_PAYMENT_METHOD\<close> and leaves the outside state as it was: no adapter
  runs and no provider is called. The HTTP endpoint never hands such a method to the
  manager: it replaces it by \<open>stripe\<close>, and answers as it does for \<open>stripe\<close>.
\<close>

theorem unregistered_method_rejected_by_manager:
  assumes "method \<notin> set [''stripe'', ''paypal'', ''wechat'', ''alipay'']"
  shows "PaymentManager_createPayment cfg p w method order returnUrl cancelUrl
           = (Failure ''UNSUPPORTED_PAYMENT_METHOD'', w)
         \<and> createPayment cfg p w u oid method returnUrl' cancelUrl'
           = createPayment cfg p w u oid ''stripe'' returnUrl' cancelUrl'"
proof -
  from assms have m: "method \<notin> set getSupportedMethods" by (simp add: getSupportedMethods_list)
  have s: "''stripe'' \<in> set getSupportedMethods" by (simp add: getSupportedMethods_list)
  show ?thesis
    by (simp add: PaymentManager_createPayment_def map_of_gateways_None[OF m]
          createPayment_def m s)
qed

theorem unregistered_method_rejected_by_manager_witness:
  "''bitcoin'' \<notin> set [''stripe'', ''paypal'', ''wechat'', ''alipay'']
   \<and> PaymentManager_createPayment sampleConfig sampleProviders (worldWith ''pending'') ''bitcoin''
        (orderIn ''pending'') ''https://shop.example/ok'' ''https://shop.example/cancel''
       = (Failure ''UNSUPPORTED_PAYMENT_METHOD'', worldWith ''pending'')"
proof -
  have m: "''bitcoin'' \<notin> set [''stripe'', ''paypal'', ''wechat'', ''alipay'']" by simp
  from unregistered_method_rejected_by_manager[OF m] m show ?thesis by simp
qed

section \<open>C8: the total amount\<close>

lemma update_keeps_constantPart:
  assumes "OrderService_updateOrderStatus w now oid st nt = Inr (order, w')"
  shows "map_option constantPart (orders w' k) = map_option constantPart (orders w k)"
  using assms
  by (auto simp: OrderService_updateOrderStatus_def Let_def constantPart_def
        split: option.splits)

lemma statusUpdates_keep_constantPart:
  "map_option constantPart (orders (statusUpdates w cs) k) = map_option constantPart (orders w k)"
proof (induction cs arbitrary: w)
  case Nil
  show ?case by simp
next
  case (Cons c cs)
  show ?case
  proof (cases "OrderService_updateOrderStatus w (atTime c) (target c) (newStatus c) (withNote c)")
    case (Inl e)
    then show ?thesis using Cons.IH[of w] by simp
  next
    case (Inr r)
    obtain order w' where r: "r = (order, w')" by (cases r)
    from Inr r Cons.IH[of w'] update_keeps_constantPart[of w _ _ _ _ order w' k]
    show ?thesis by simp
  qed
qed

lemma status_update_keeps_other_fields:
  assumes "orders w oid = Some old"
    and "OrderService_updateOrderStatus w now oid st nt = Inr (order', w'')"
  shows "totalAmount order' = totalAmount old
         \<and> constantPart order' = constantPart old
         \<and> status order' = st
         \<and> timeline order' = timeline old @ [entryFor st (the (getStatusTitle st)) nt now]
         \<and> w'' = storedAt w oid order'"
proof -
  from assms obtain t where t: "getStatusTitle st = Some t"
    by (cases "getStatusTitle st") (auto simp: OrderService_updateOrderStatus_def)
  from assms(2) updateOrderStatus_effect[OF assms(1) t, of now nt]
  have o: "order' = moved old st t nt now" and w: "w'' = storedAt w oid order'" by auto
  show ?thesis by (simp add: o w t moved_def constantPart_def)
qed

lemma createOrder_created:
  assumes "createOrder addDays w now newId u body = (Json 201 (Success order), w')"
  shows "order = freshOrder newId
                   \<lparr> dataUserId = uid u,
                     dataItems = reqItems body,
                     dataTotalAmount =
                       foldl (\<lambda>sum item. fadd sum (itemTotal item)) (Fin 0) (reqItems body),
                     dataEstimatedCompletionDate = addDays now estimatedCompletionDays,
                     dataNotes = reqNotes body \<rparr> now
         \<and> orders w' newId = Some order"
  using assms
  by (auto simp: createOrder_def Let_def OrderService_createOrder_def freshOrder_def entryFor_def
        split: if_splits sum.splits option.splits)

lemma created_order_has_no_items:
  assumes "createOrder addDays w now newId u body = (Json 201 (Success order), w')"
  shows "items order = [] \<and> itemTotalsSum order = Fin 0"
  using createOrder_created[OF assms] by (simp add: freshOrder_def itemTotalsSum_def)

lemma sampleBody_total:
  "foldl (\<lambda>sum item. fadd sum (itemTotal item)) (Fin 0) (reqItems sampleBody) = Fin 19"
  by code_simp

lemma createOrder_sample:
  "createOrder utcDays (worldWith ''pending'') 3000 ''ord2'' alice sampleBody =
     (Json 201 (Success sampleOrder),
      clearCart (sendOrderConfirmation (storedAt (worldWith ''pending'') ''ord2'' sampleOrder)
                   sampleOrder ''alice@example.com'') ''alice'')"
proof -
  have cart: "getUserCart (worldWith ''pending'') ''alice''
                = [\<lparr> cartProductId = ''p1'' \<rparr>, \<lparr> cartProductId = ''p2'' \<rparr>]"
    by (simp add: getUserCart_def worldWith_def)
  have fresh: "orders (worldWith ''pending'') ''ord2'' = None" by (simp add: worldWith_def)
  have usr: "getUserById (storedAt (worldWith ''pending'') ''ord2'' sampleOrder) ''alice''
               = Some \<lparr> email = Some ''alice@example.com'', phone = None \<rparr>"
    by (simp add: getUserById_def storedAt_def worldWith_def)
  have chk: "\<forall>item \<in> set (reqItems sampleBody).
               ''p1'' = productId item \<or> ''p2'' = productId item"
    by (simp add: sampleBody_def)
  have nonotes: "reqNotes sampleBody = None" by (simp add: sampleBody_def)
  have d: "utcDays 3000 estimatedCompletionDays = 2160003000"
    by (simp add: utcDays_def estimatedCompletionDays_def)
  show ?thesis
    by (simp add: createOrder_def Let_def alice_def cart chk nonotes sampleBody_total d
          createOrder_effect[OF fresh] sampleOrder_def[symmetric] usr nonempty_def)
qed

text \<open>
  C8. The second half of the claim holds: a status update returns the order with
  \<open>status\<close> set and one entry appended to the timeline and every other field,
  \<open>totalAmount\<close> among them, as it was (\<open>status_update_keeps_other_fields\<close>), also over any
  run of updates (\<open>statusUpdates_keep_constantPart\<close>). The first half does not hold of the
  code. The create-order endpoint computes \<open>totalAmount\<close> from the request (for each
  requested item the quantity times the sum of its customization prices) and hands the
  requested items to \<open>OrderService.createOrder\<close>, which writes no item rows: an order is
  created without items (\<open>created_order_has_no_items\<close>). For the sample request, two
  copies of \<open>p1\<close> customized for 5 and 2.5 and one \<open>p2\<close> customized for 4, by a buyer whose
  cart holds both products, the endpoint answers 201 with the order it stored; the order's
  \<open>totalAmount\<close> is 19, it has no items, and the sum of its item totals is 0.
\<close>

theorem created_order_total_is_not_the_sum_of_its_item_totals:
  "createOrder utcDays (worldWith ''pending'') 3000 ''ord2'' alice sampleBody
     = (Json 201 (Success sampleOrder),
        clearCart (sendOrderConfirmation (storedAt (worldWith ''pending'') ''ord2'' sampleOrder)
                     sampleOrder ''alice@example.com'') ''alice'')
   \<and> orders (snd (createOrder utcDays (worldWith ''pending'') 3000 ''ord2'' alice sampleBody))
        ''ord2'' = Some sampleOrder
   \<and> totalAmount sampleOrder = Fin 19
   \<and> items sampleOrder = []
   \<and> itemTotalsSum sampleOrder = Fin 0
   \<and> totalAmount sampleOrder \<noteq> itemTotalsSum sampleOrder"
proof -
  have s: "orders (clearCart (sendOrderConfirmation
                     (storedAt (worldWith ''pending'') ''ord2'' sampleOrder)
                     sampleOrder ''alice@example.com'') ''alice'') ''ord2'' = Some sampleOrder"
    by (simp add: clearCart_def sendOrderConfirmation_def storedAt_def)
  have t: "totalAmount sampleOrder = Fin 19" "items sampleOrder = []"
    by (simp_all add: sampleOrder_def freshOrder_def)
  show ?thesis by (simp add: createOrder_sample s t itemTotalsSum_def)
qed

section \<open>C9: minor units to major units and back\<close>

text \<open>
  C9 as stated fails for large amounts. \<open>4150592375099434\<close> is an integer that binary64
  holds exactly; dividing it by 100 and multiplying the quotient by 100 rounds twice,
  and \<open>Math.round\<close> of the product is the next integer.
\<close>

theorem round_trip_drifts_counterexample:
  "toMinorUnits (toMajorUnits (Some (Fin 4150592375099434))) = Fin 4150592375099435"
  by code_simp

text \<open>
  C9, amended. For every amount \<open>m\<close> of minor units below \<open>2 ^ 51\<close> (about
  \<open>2.25 * 10 ^ 15\<close>), and so for 1, 99, 100 and 100000, the Stripe adapter's conversion
  to major units, \<open>(m || 0) / 100\<close>, followed by its conversion to minor units,
  \<open>Math.round(x * 100)\<close>, yields exactly \<open>m\<close>.
\<close>

theorem stripe_amount_round_trip:
  assumes "m < 2 ^ 51"
  shows "toMinorUnits (toMajorUnits (Some (Fin (of_nat m)))) = Fin (of_nat m)"
proof (cases "m = 0")
  case True
  then show ?thesis by (simp add: round_trip_zero)
next
  case False
  then have "0 < m" by simp
  then show ?thesis using assms by (rule round_trip_pos)
qed

theorem stripe_amount_round_trip_witness:
  "(1::nat) < 2 ^ 51 \<and> (99::nat) < 2 ^ 51 \<and> (100::nat) < 2 ^ 51 \<and> (100000::nat) < 2 ^ 51
   \<and> toMinorUnits (toMajorUnits (Some (Fin 1))) = Fin 1
   \<and> toMinorUnits (toMajorUnits (Some (Fin 99))) = Fin 99
   \<and> toMinorUnits (toMajorUnits (Some (Fin 100))) = Fin 100
   \<and> toMinorUnits (toMajorUnits (Some (Fin 100000))) = Fin 100000"
  using stripe_amount_round_trip[of 1] stripe_amount_round_trip[of 99]
    stripe_amount_round_trip[of 100] stripe_amount_round_trip[of 100000]
  by simp

section \<open>C10: fees\<close>

lemma truthy_rates:
  "truthy (literal (29 / 1000))" "truthy (literal (17 / 500))" "truthy (literal (3 / 500))"
  by code_simp+

lemma calculateFees_table:
  "calculateFees amt ''stripe'' = fmul amt (literal (29 / 1000))"
  "calculateFees amt ''paypal'' = fmul amt (literal (34 / 1000))"
  "calculateFees amt ''wechat'' = fmul amt (literal (6 / 1000))"
  "calculateFees amt ''alipay'' = fmul amt (literal (6 / 1000))"
  by (simp_all add: calculateFees_def js_lookup_def feeRates_def or_else_def truthy_rates)

lemma calculateFees_default:
  assumes "method \<notin> set [''stripe'', ''paypal'', ''wechat'', ''alipay'']"
    and "method \<notin> set object_prototype_keys"
  shows "calculateFees amt method = fmul amt (literal (3 / 100))"
proof -
  from assms(1) have "map_of feeRates method = None"
    by (simp add: feeRates_def)
  with assms(2) show ?thesis by (simp add: calculateFees_def js_lookup_def)
qed

lemma literal_2_9: "literal (29 / 10) = Fin (6530219459687219 / 2 ^ 51)"
  by code_simp

lemma stripe_fee_of_100: "calculateFees (Fin 100) ''stripe'' = Fin (6530219459687220 / 2 ^ 51)"
  by code_simp

lemma wechat_fee_of_100: "calculateFees (Fin 100) ''wechat'' = literal (6 / 10)"
  by code_simp

lemma default_fee_of_100: "fmul (Fin 100) (literal (3 / 100)) = Fin 3"
  by code_simp

text \<open>
  A method named like a member of \<open>Object.prototype\<close> is outside the table and still
  finds a rate that is not a number; the fee is \<open>NaN\<close>.
\<close>

lemma inherited_key_fee: "calculateFees (Fin 100) ''toString'' = NaN"
  by code_simp

text \<open>
  C10 as stated fails on the first example. The binary64 product of 100 and the
  literal \<open>0.029\<close> is not the binary64 value of \<open>2.90\<close> but the next one above it
  (JavaScript prints it as \<open>2.9000000000000004\<close>).
\<close>

theorem stripe_fee_is_not_2_90_counterexample:
  "calculateFees (Fin 100) ''stripe'' \<noteq> literal (29 / 10)"
  by (simp add: stripe_fee_of_100 literal_2_9)

text \<open>
  C10, amended. \<open>calculateFees(amount, method)\<close> returns the binary64 product of the
  amount and the rate, with the rates \<open>0.029\<close> for \<open>stripe\<close>, \<open>0.034\<close> for \<open>paypal\<close>,
  \<open>0.006\<close> for \<open>wechat\<close> and \<open>0.006\<close> for \<open>alipay\<close>; for a method that is neither in
  the table nor the name of a member of \<open>Object.prototype\<close> the rate is \<open>0.03\<close>, so
  that the fee of 100 is exactly 3. The fee of 100 by \<open>wechat\<close> is exactly the binary64
  value of \<open>0.60\<close>; the fee of 100 by \<open>stripe\<close> is \<open>6530219459687220 / 2 ^ 51\<close>, one unit
  in the last place above the binary64 value of \<open>2.90\<close>.
\<close>

theorem calculateFees_is_the_rounded_product:
  "calculateFees amt ''stripe'' = fmul amt (literal (29 / 1000))
   \<and> calculateFees amt ''paypal'' = fmul amt (literal (34 / 1000))
   \<and> calculateFees amt ''wechat'' = fmul amt (literal (6 / 1000))
   \<and> calculateFees amt ''alipay'' = fmul amt (literal (6 / 1000))
   \<and> (method \<notin> set [''stripe'', ''paypal'', ''wechat'', ''alipay'']
        \<and> method \<notin> set object_prototype_keys
      \<longrightarrow> calculateFees amt method = fmul amt (literal (3 / 100))
          \<and> calculateFees (Fin 100) method = Fin 3)
   \<and> calculateFees (Fin 100) ''stripe'' = Fin (6530219459687220 / 2 ^ 51)
   \<and> literal (29 / 10) = Fin (6530219459687219 / 2 ^ 51)
   \<and> calculateFees (Fin 100) ''wechat'' = literal (6 / 10)"
proof (intro conjI impI)
  assume m: "method \<notin> set [''stripe'', ''paypal'', ''wechat'', ''alipay'']
        \<and> method \<notin> set object_prototype_keys"
  then show "calculateFees amt method = fmul amt (literal (3 / 100))"
    by (intro calculateFees_default) simp_all
  from m have "calculateFees (Fin 100) method = fmul (Fin 100) (literal (3 / 100))"
    by (intro calculateFees_default) simp_all
  then show "calculateFees (Fin 100) method = Fin 3" by (simp only: default_fee_of_100)
qed (rule calculateFees_table stripe_fee_of_100 literal_2_9 wechat_fee_of_100)+

theorem calculateFees_is_the_rounded_product_witness:
  "''bitcoin'' \<notin> set [''stripe'', ''paypal'', ''wechat'', ''alipay'']
   \<and> ''bitcoin'' \<notin> set object_prototype_keys
   \<and> calculateFees (Fin 100) ''bitcoin'' = Fin 3"
proof -
  have m: "''bitcoin'' \<notin> set [''stripe'', ''paypal'', ''wechat'', ''alipay'']
           \<and> ''bitcoin'' \<notin> set object_prototype_keys"
    by (simp add: object_prototype_keys_def)
  from calculateFees_is_the_rounded_product[of "Fin 100" "''bitcoin''"]
  have "''bitcoin'' \<notin> set [''stripe'', ''paypal'', ''wechat'', ''alipay'']
          \<and> ''bitcoin'' \<notin> set object_prototype_keys
        \<longrightarrow> calculateFees (Fin 100) ''bitcoin'' = Fin 3"
    by blast
  with m show ?thesis by blast
qed

end
